(* ===== verification/Prelude.thy ===== *)
theory Prelude
  imports Complex_Main
begin

text \<open>
  Shared vocabulary of the development: the names of the model's basic types, the
  collections of rewrite rules the component theories contribute to, and generic
  lemmas on lists, options and maps that several components use.
\<close>

section \<open>Types shared by all components\<close>

text \<open>
  \<open>sid\<close> is the express-session identifier \<open>req.sessionID\<close>, the key of both token
  stores of \<^verbatim>\<open>src/index.js\<close>; \<open>ms\<close> is a reading of \<^verbatim>\<open>Date.now()\<close> in
  milliseconds, the clock node-cache compares its expiry stamps with.
\<close>

type_synonym sid = string
type_synonym ms = int

section \<open>Rule collections\<close>

text \<open>
  \<open>js_simps\<close> collects the evaluation rules of the JavaScript operations the program
  uses (property access, truthiness, string conversion); \<open>store_simps\<close> collects
  the lookup rules of the two token stores. Component proofs use them through
  \<open>simp add: js_simps\<close> and \<open>simp add: store_simps\<close>.
\<close>

named_theorems js_simps
named_theorems store_simps

section \<open>Generic lemmas\<close>

text \<open>Keys of a map that is updated only ever grow.\<close>

lemma dom_fun_upd_Some_mono [store_simps]: "dom m \<subseteq> dom (m(k \<mapsto> v))"
  by auto

lemma subset_dom_upd_both [store_simps]:
  "dom a \<subseteq> dom b \<Longrightarrow> dom (a(k \<mapsto> x)) \<subseteq> dom (b(k \<mapsto> y))"
  by auto

text \<open>A prefix of known length bounds the length of the list.\<close>

lemma take_eq_length: "take k s = t \<Longrightarrow> length t = k \<Longrightarrow> k \<le> length s"
  by (metis length_take min.cobounded1)

lemma subset_dom_del [store_simps]:
  "dom a \<subseteq> dom b \<Longrightarrow> dom (a(k := None)) \<subseteq> dom b"
  by auto

end
