(* ===== verification/JsValue.thy ===== *)
theory JsValue
  imports Prelude
begin

text \<open>
  The JavaScript values the program handles and the parts of the language's semantics it
  relies on: truthiness (\<^verbatim>\<open>if (x)\<close>, \<^verbatim>\<open>!x\<close>, \<^verbatim>\<open>x ? a : b\<close>), property access
  (\<^verbatim>\<open>x.p\<close>, which throws a TypeError on \<^verbatim>\<open>undefined\<close> and \<^verbatim>\<open>null\<close>), string
  conversion in template literals, numeric conversion for \<^verbatim>\<open>*\<close>, and
  \<^verbatim>\<open>Math.round\<close>. Values come from \<^verbatim>\<open>JSON.parse\<close>, from express's query and body
  parsers, or are string literals of the program, so objects are plain data: a list of
  properties in insertion order, where a later entry for the same key wins, as
  \<^verbatim>\<open>JSON.parse\<close> keeps the last duplicate.

  Number values are integers (\<open>int\<close>): the program reads a number only from
  \<^verbatim>\<open>expires_in\<close>, which the provider sends as an integer count of seconds, and every
  integer below \<open>2^53\<close> is exact in a double. Numeric conversion (ToNumber) returns
  the exact rational value of its operand, which covers every numeric string, \<open>None\<close>
  standing for NaN; infinities are not modelled.
\<close>

section \<open>Values\<close>

datatype jsval =
    JUndef
  | JNull
  | JBool bool
  | JNum int
  | JStr string
  | JArr "jsval list"
  | JObj "(string \<times> jsval) list"

text \<open>
  The body of an HTTP response as \<^verbatim>\<open>JSON.parse\<close> sees it: text that parses to a
  value, or text that does not parse. The parser itself is a library of the runtime and
  is not modelled beyond this outcome.
\<close>

datatype body = Json jsval | Unparseable

text \<open>
  An exception: thrown by the language (TypeError), by \<^verbatim>\<open>JSON.parse\<close>
  (SyntaxError), or by the HTTP client \<^verbatim>\<open>request-promise-native\<close>, whose
  StatusCodeError (a response with a non-2xx status) carries the response and whose
  RequestError (no response: connection refused, DNS failure, reset) does not.
\<close>

datatype exn = TypeError | SyntaxError | StatusCodeError body | RequestError

text \<open>The completion of a JavaScript computation: a value, or an exception.\<close>

datatype 'a completion = Normal 'a | Throw exn

fun cbind :: "'a completion \<Rightarrow> ('a \<Rightarrow> 'b completion) \<Rightarrow> 'b completion" where
  "cbind (Normal a) f = f a"
| "cbind (Throw e) f = Throw e"

definition json_parse :: "body \<Rightarrow> jsval completion" where
  "json_parse b = (case b of Json v \<Rightarrow> Normal v | Unparseable \<Rightarrow> Throw SyntaxError)"

text \<open>
  \<^verbatim>\<open>e.response.body\<close> inside a \<^verbatim>\<open>catch\<close>: only a StatusCodeError has a
  response; on any other exception \<^verbatim>\<open>e.response\<close> is \<^verbatim>\<open>undefined\<close> and reading
  its \<^verbatim>\<open>body\<close> throws a TypeError.
\<close>

fun response_body :: "exn \<Rightarrow> body completion" where
  "response_body (StatusCodeError b) = Normal b"
| "response_body e = Throw TypeError"

text \<open>
  Console output: \<^verbatim>\<open>console.log(text)\<close>, \<^verbatim>\<open>console.log(text, value)\<close> and
  \<^verbatim>\<open>console.error(text)\<close>.
\<close>

datatype log_entry = Log string | LogVal string jsval | LogErr string

section \<open>Truthiness\<close>

text \<open>ECMAScript ToBoolean on the values of the model.\<close>

fun truthy :: "jsval \<Rightarrow> bool" where
  "truthy JUndef = False"
| "truthy JNull = False"
| "truthy (JBool b) = b"
| "truthy (JNum n) = (n \<noteq> 0)"
| "truthy (JStr s) = (s \<noteq> [])"
| "truthy (JArr xs) = True"
| "truthy (JObj fs) = True"

section \<open>Property access\<close>

text \<open>
  \<^verbatim>\<open>v.k\<close>: a TypeError on \<^verbatim>\<open>undefined\<close> and \<^verbatim>\<open>null\<close>; the last own property named
  \<open>k\<close> of an object; \<^verbatim>\<open>undefined\<close> otherwise. The names the program reads
  (\<^verbatim>\<open>message\<close>, \<^verbatim>\<open>access_token\<close>, \<^verbatim>\<open>refresh_token\<close>, \<^verbatim>\<open>expires_in\<close>,
  \<^verbatim>\<open>eventType\<close>, \<^verbatim>\<open>contact\<close>, \<^verbatim>\<open>contacts\<close>) are not inherited from any built-in
  prototype, so an absent own property reads as \<^verbatim>\<open>undefined\<close>.
\<close>

definition obj_prop :: "(string \<times> jsval) list \<Rightarrow> string \<Rightarrow> jsval" where
  "obj_prop fs k = (case map_of (rev fs) k of Some v \<Rightarrow> v | None \<Rightarrow> JUndef)"

fun get_prop :: "jsval \<Rightarrow> string \<Rightarrow> jsval completion" where
  "get_prop JUndef k = Throw TypeError"
| "get_prop JNull k = Throw TypeError"
| "get_prop (JObj fs) k = Normal (obj_prop fs k)"
| "get_prop (JBool b) k = Normal JUndef"
| "get_prop (JNum n) k = Normal JUndef"
| "get_prop (JStr s) k = Normal JUndef"
| "get_prop (JArr xs) k = Normal JUndef"

section \<open>String conversion\<close>

text \<open>\<^verbatim>\<open>Array.prototype.join\<close> on strings already converted.\<close>

fun join_sep :: "string \<Rightarrow> string list \<Rightarrow> string" where
  "join_sep sep [] = []"
| "join_sep sep [x] = x"
| "join_sep sep (x # y # ys) = x @ sep @ join_sep sep (y # ys)"

definition dec_digits :: string where
  "dec_digits = ''0123456789''"

fun nat_to_dec :: "nat \<Rightarrow> string" where
  "nat_to_dec n =
     (if n < 10 then [dec_digits ! n] else nat_to_dec (n div 10) @ [dec_digits ! (n mod 10)])"

declare nat_to_dec.simps [simp del]

definition int_to_dec :: "int \<Rightarrow> string" where
  "int_to_dec i = (if i < 0 then CHR ''-'' # nat_to_dec (nat (- i)) else nat_to_dec (nat i))"

text \<open>
  ECMAScript ToString, as a template literal \<^verbatim>\<open>`${v}`\<close> applies it. Array elements
  that are \<^verbatim>\<open>undefined\<close> or \<^verbatim>\<open>null\<close> print as the empty string.
\<close>

fun js_to_string :: "jsval \<Rightarrow> string" where
  "js_to_string JUndef = ''undefined''"
| "js_to_string JNull = ''null''"
| "js_to_string (JBool b) = (if b then ''true'' else ''false'')"
| "js_to_string (JNum n) = int_to_dec n"
| "js_to_string (JStr s) = s"
| "js_to_string (JArr xs) =
     join_sep '','' (map (\<lambda>x. if x = JUndef \<or> x = JNull then [] else js_to_string x) xs)"
| "js_to_string (JObj fs) = ''[object Object]''"

section \<open>Indexed access\<close>

text \<open>\<^verbatim>\<open>v[i]\<close> for a numeric index: array elements, string characters, and the own property named by the index's decimal string on an object.\<close>

fun get_index :: "jsval \<Rightarrow> nat \<Rightarrow> jsval completion" where
  "get_index JUndef i = Throw TypeError"
| "get_index JNull i = Throw TypeError"
| "get_index (JArr xs) i = Normal (if i < length xs then xs ! i else JUndef)"
| "get_index (JStr s) i = Normal (if i < length s then JStr [s ! i] else JUndef)"
| "get_index (JObj fs) i = Normal (obj_prop fs (nat_to_dec i))"
| "get_index v i = Normal JUndef"

section \<open>Numeric conversion\<close>

text \<open>
  ECMAScript ToNumber, as the operand of \<^verbatim>\<open>*\<close> undergoes it. The result is the
  exact rational value, \<open>None\<close> being NaN; the rounding of a decimal literal to the
  nearest double is not modelled (it is the identity on every integer below \<open>2^53\<close>).
  A string converts by StringToNumber: white space is trimmed, the empty string is 0,
  \<^verbatim>\<open>0x\<close>/\<^verbatim>\<open>0o\<close>/\<^verbatim>\<open>0b\<close> literals are read in base 16, 8 and 2, and a
  decimal literal has an optional sign, digits with an optional fraction, and an
  optional exponent. \<^verbatim>\<open>Infinity\<close> and literals too large for a double are the only
  numbers outside the model; they give \<open>None\<close>.
\<close>

definition js_ws :: "char \<Rightarrow> bool" where
  "js_ws c \<longleftrightarrow> of_char c \<in> {9, 10, 11, 12, 13, 32, 160 :: nat}"

definition is_dec_digit :: "char \<Rightarrow> bool" where
  "is_dec_digit c \<longleftrightarrow> c \<in> set dec_digits"

definition js_trim :: "string \<Rightarrow> string" where
  "js_trim s = rev (dropWhile js_ws (rev (dropWhile js_ws s)))"

text \<open>The value of a digit in base \<open>b\<close> (at most 16; letters in either case).\<close>

definition digit_val :: "nat \<Rightarrow> char \<Rightarrow> nat option" where
  "digit_val b c =
     (let n = of_char c;
          v = (if 48 \<le> n \<and> n \<le> 57 then Some (n - 48)
               else if 97 \<le> n \<and> n \<le> 102 then Some (n - 87)
               else if 65 \<le> n \<and> n \<le> 70 then Some (n - 55)
               else None)
      in case v of Some d \<Rightarrow> if d < b then Some d else None | None \<Rightarrow> None)"

fun digits_acc :: "nat \<Rightarrow> int \<Rightarrow> string \<Rightarrow> int option" where
  "digits_acc b acc [] = Some acc"
| "digits_acc b acc (c # cs) =
     (case digit_val b c of None \<Rightarrow> None | Some d \<Rightarrow> digits_acc b (int b * acc + int d) cs)"

text \<open>A non-empty digit sequence in base \<open>b\<close>.\<close>

definition digits_value :: "nat \<Rightarrow> string \<Rightarrow> int option" where
  "digits_value b ds = (if ds = [] then None else digits_acc b 0 ds)"

text \<open>\<^verbatim>\<open>ExponentPart\<close> after the \<^verbatim>\<open>e\<close>: a signed decimal integer.\<close>

definition exponent_part :: "string \<Rightarrow> int option" where
  "exponent_part s =
     (case s of
        [] \<Rightarrow> None
      | c # ds \<Rightarrow>
          if c = CHR ''+'' then digits_value 10 ds
          else if c = CHR ''-'' then map_option uminus (digits_value 10 ds)
          else digits_value 10 s)"

text \<open>
  \<^verbatim>\<open>StrUnsignedDecimalLiteral\<close> other than \<^verbatim>\<open>Infinity\<close>:
  \<^verbatim>\<open>digits [. digits] [e exp]\<close> or \<^verbatim>\<open>. digits [e exp]\<close>, with at least one digit
  before the exponent; the value \<open>m * 10 ^ e\<close>.
\<close>

definition unsigned_decimal :: "string \<Rightarrow> rat option" where
  "unsigned_decimal s =
     (let ip = takeWhile is_dec_digit s;
          r1 = dropWhile is_dec_digit s;
          fp = (case r1 of c # r \<Rightarrow> if c = CHR ''.'' then takeWhile is_dec_digit r else [] | [] \<Rightarrow> []);
          r2 = (case r1 of c # r \<Rightarrow> if c = CHR ''.'' then dropWhile is_dec_digit r else r1 | [] \<Rightarrow> []);
          ex = (case r2 of
                  [] \<Rightarrow> Some 0
                | c # r \<Rightarrow> if c = CHR ''e'' \<or> c = CHR ''E'' then exponent_part r else None)
      in if ip = [] \<and> fp = [] then None
         else case (digits_acc 10 0 (ip @ fp), ex) of
                (Some m, Some e) \<Rightarrow>
                  Some (of_int m * (if 0 \<le> e - int (length fp) then of_int (10 ^ nat (e - int (length fp)))
                                    else 1 / of_int (10 ^ nat (int (length fp) - e))))
              | _ \<Rightarrow> None)"

text \<open>\<^verbatim>\<open>NonDecimalIntegerLiteral\<close>: \<^verbatim>\<open>0x\<close>, \<^verbatim>\<open>0o\<close>, \<^verbatim>\<open>0b\<close> (no sign allowed).\<close>

definition non_decimal :: "string \<Rightarrow> int option" where
  "non_decimal t =
     (case t of
        z # c # ds \<Rightarrow>
          if z \<noteq> CHR ''0'' then None
          else if c = CHR ''x'' \<or> c = CHR ''X'' then digits_value 16 ds
          else if c = CHR ''o'' \<or> c = CHR ''O'' then digits_value 8 ds
          else if c = CHR ''b'' \<or> c = CHR ''B'' then digits_value 2 ds
          else None
      | _ \<Rightarrow> None)"

definition string_to_number :: "string \<Rightarrow> rat option" where
  "string_to_number s =
     (let t = js_trim s in
      if t = [] then Some 0
      else case non_decimal t of
        Some n \<Rightarrow> Some (of_int n)
      | None \<Rightarrow>
          (case t of
             c # ds \<Rightarrow>
               if c = CHR ''-'' then map_option uminus (unsigned_decimal ds)
               else if c = CHR ''+'' then unsigned_decimal ds
               else unsigned_decimal t
           | [] \<Rightarrow> None))"

fun to_number :: "jsval \<Rightarrow> rat option" where
  "to_number JUndef = None"
| "to_number JNull = Some 0"
| "to_number (JBool b) = Some (if b then 1 else 0)"
| "to_number (JNum n) = Some (of_int n)"
| "to_number (JStr s) = string_to_number s"
| "to_number (JArr xs) = string_to_number (js_to_string (JArr xs))"
| "to_number (JObj fs) = None"

section \<open>Evaluation lemmas\<close>

lemma get_prop_Throw_iff [js_simps]:
  "get_prop v k = Throw e \<longleftrightarrow> (v = JUndef \<or> v = JNull) \<and> e = TypeError"
  by (cases v) auto

lemma get_prop_nonnull [js_simps]:
  "v \<noteq> JUndef \<Longrightarrow> v \<noteq> JNull \<Longrightarrow> \<exists>x. get_prop v k = Normal x"
  by (cases v) auto

lemma cbind_Normal_iff [js_simps]:
  "cbind c f = Normal y \<longleftrightarrow> (\<exists>x. c = Normal x \<and> f x = Normal y)"
  by (cases c) auto

lemma json_parse_simps [simp, js_simps]:
  "json_parse (Json v) = Normal v" "json_parse Unparseable = Throw SyntaxError"
  by (simp_all add: json_parse_def)

end
