(* ===== verification/NodeCache.thy ===== *)
theory NodeCache
  imports JsValue
begin

text \<open>
  The access-token cache of \<^verbatim>\<open>src/index.js\<close> is
  \<^verbatim>\<open>new NodeCache({ deleteOnExpire: true })\<close> (line 12) of the node-cache library,
  which is not part of the repository: this theory models the library's documented
  behaviour for the options the program passes (\<^verbatim>\<open>stdTTL\<close> 0, \<^verbatim>\<open>deleteOnExpire\<close>
  true). Each key holds a wrapper \<^verbatim>\<open>{v, t}\<close>: the value and the millisecond time
  after which it is stale, where \<^verbatim>\<open>t = 0\<close> means "never". \<^verbatim>\<open>set\<close> computes
  \<^verbatim>\<open>t\<close> from the TTL in seconds, \<^verbatim>\<open>get\<close> returns the value of a fresh entry and
  deletes a stale one, and a timer (the check period) deletes stale entries in the
  background.
\<close>

section \<open>State and operations\<close>

record centry =
  cval :: jsval
  ct :: ms

type_synonym cache = "sid \<rightharpoonup> centry"

definition std_ttl :: int where
  "std_ttl = 0"

text \<open>
  \<^verbatim>\<open>_wrap\<close>: the expiry stamp for a TTL (a JavaScript number; \<open>None\<close> is NaN). A TTL
  of 0 never expires; a truthy TTL counts from now; a falsy one (NaN) falls back to
  \<^verbatim>\<open>stdTTL\<close>, which is 0 here.
\<close>

definition livetime :: "int option \<Rightarrow> ms \<Rightarrow> ms" where
  "livetime ttl now =
     (case ttl of
        Some n \<Rightarrow> if n = 0 then 0 else now + n * 1000
      | None \<Rightarrow> if std_ttl = 0 then std_ttl else now + std_ttl * 1000)"

definition cache_set :: "sid \<Rightarrow> jsval \<Rightarrow> int option \<Rightarrow> ms \<Rightarrow> cache \<Rightarrow> cache" where
  "cache_set k v ttl now c = c(k \<mapsto> \<lparr>cval = v, ct = livetime ttl now\<rparr>)"

text \<open>\<^verbatim>\<open>_check\<close>: an entry is stale when its stamp is set and already passed.\<close>

definition stale :: "centry \<Rightarrow> ms \<Rightarrow> bool" where
  "stale e now \<longleftrightarrow> ct e \<noteq> 0 \<and> ct e < now"

text \<open>\<^verbatim>\<open>get\<close> returns the value (or \<^verbatim>\<open>undefined\<close>) and the cache after the call.\<close>

definition cache_get :: "sid \<Rightarrow> ms \<Rightarrow> cache \<Rightarrow> jsval \<times> cache" where
  "cache_get k now c =
     (case c k of
        None \<Rightarrow> (JUndef, c)
      | Some e \<Rightarrow> if stale e now then (JUndef, c(k := None)) else (cval e, c))"

text \<open>\<^verbatim>\<open>_checkData\<close>, run by the check-period timer: every stale entry is deleted.\<close>

definition cache_check_data :: "ms \<Rightarrow> cache \<Rightarrow> cache" where
  "cache_check_data now c = (\<lambda>k. case c k of None \<Rightarrow> None | Some e \<Rightarrow> if stale e now then None else Some e)"

text \<open>Reading a value: what \<^verbatim>\<open>get\<close> returns, without the state it leaves.\<close>

definition cache_peek :: "sid \<Rightarrow> ms \<Rightarrow> cache \<Rightarrow> jsval" where
  "cache_peek k now c = (case c k of None \<Rightarrow> JUndef | Some e \<Rightarrow> if stale e now then JUndef else cval e)"

section \<open>Lemmas\<close>

lemma livetime_pos:
  "0 \<le> now \<Longrightarrow> 0 < n \<Longrightarrow> livetime (Some n) now = now + n * 1000 \<and> 0 < livetime (Some n) now"
  by (simp add: livetime_def)

lemma livetime_never [simp]: "livetime (Some 0) now = 0" "livetime None now = 0"
  by (simp_all add: livetime_def std_ttl_def)

lemma stale_mono: "stale e t \<Longrightarrow> t \<le> t' \<Longrightarrow> stale e t'"
  by (auto simp: stale_def)

lemma cache_get_dom [store_simps]: "dom (snd (cache_get k now c)) \<subseteq> dom c"
  by (auto simp: cache_get_def split: option.splits)

lemma cache_get_other [store_simps]:
  "k' \<noteq> k \<Longrightarrow> snd (cache_get k now c) k' = c k'"
  by (simp add: cache_get_def split: option.splits)

lemma cache_get_set_same:
  "cache_get k t (cache_set k v ttl now c) =
     (if stale \<lparr>cval = v, ct = livetime ttl now\<rparr> t
      then (JUndef, c(k := None)) else (v, cache_set k v ttl now c))"
  by (simp add: cache_get_def cache_set_def)

lemma fst_cache_get [simp]: "fst (cache_get k now c) = cache_peek k now c"
  by (simp add: cache_get_def cache_peek_def split: option.splits)

lemma cache_peek_set_same:
  "cache_peek u t (cache_set u v ttl now c) =
     (if stale \<lparr>cval = v, ct = livetime ttl now\<rparr> t then JUndef else v)"
  by (simp add: cache_peek_def cache_set_def)

lemma cache_get_fresh:
  "c u = Some e \<Longrightarrow> \<not> stale e t \<Longrightarrow> cache_get u t c = (cval e, c)"
  by (simp add: cache_get_def)

lemma cache_get_keeps_peek:
  "now \<le> t \<Longrightarrow> cache_peek k' t (snd (cache_get k now c)) = cache_peek k' t c"
  by (auto simp: cache_get_def cache_peek_def dest: stale_mono split: option.splits)

end
