(* ===== verification/Scopes.thy ===== *)
theory Scopes
  imports JsValue
begin

text \<open>
  The scope list of \<^verbatim>\<open>src/index.js\<close> (lines 22--25): by default the array
  \<^verbatim>\<open>['crm.objects.contacts.read']\<close>; when the environment variable \<^verbatim>\<open>SCOPE\<close> is
  set to a non-empty string, that string split at every match of the regular expression
  \<^verbatim>\<open>/ |, ?|%20/\<close> and joined with single spaces. The theory models the regular
  expression's match at a position, the \<^verbatim>\<open>String.prototype.split\<close> loop, and the
  join, and proves that splitting inverts joining, that split-then-join replaces each
  separator match by one space, and that the result holds no comma and no
  \<^verbatim>\<open>%20\<close>.
\<close>

section \<open>The separator and the split loop\<close>

text \<open>
  The length of the match of \<^verbatim>\<open>/ |, ?|%20/\<close> at the start of a string, if any.
  Alternatives are tried left to right, and \<^verbatim>\<open>, ?\<close> is greedy: it prefers
  \<^verbatim>\<open>", "\<close> to \<^verbatim>\<open>","\<close>.
\<close>

definition scope_sep_len :: "string \<Rightarrow> nat option" where
  "scope_sep_len s =
     (if take 1 s = '' '' then Some 1
      else if take 2 s = '', '' then Some 2
      else if take 1 s = '','' then Some 1
      else if take 3 s = ''%20'' then Some 3
      else None)"

lemma scope_sep_len_Some: "scope_sep_len s = Some n \<Longrightarrow> 0 < n \<and> n \<le> length s"
  by (auto simp: scope_sep_len_def split: if_splits dest: take_eq_length)

text \<open>
  The split loop (ECMAScript \<^verbatim>\<open>@@split\<close>): \<open>cur\<close> is the piece since the last match,
  reversed; the second argument is the input from the scan position on. At a match the
  piece is emitted and the scan resumes after the match; otherwise the scan moves one
  character. At the end the last piece is emitted. The regular expression never matches
  the empty string, so every match moves the scan forward.
\<close>

function split_scope_aux :: "string \<Rightarrow> string \<Rightarrow> string list" where
  "split_scope_aux cur [] = [rev cur]"
| "split_scope_aux cur (c # cs) =
     (case scope_sep_len (c # cs) of
        Some n \<Rightarrow> rev cur # split_scope_aux [] (drop n (c # cs))
      | None \<Rightarrow> split_scope_aux (c # cur) cs)"
  by pat_completeness auto
termination
proof (relation "measure (\<lambda>(cur, s). length s)")
  fix cur c cs n
  assume "scope_sep_len (c # cs) = Some n"
  then have "0 < n" by (rule scope_sep_len_Some [THEN conjunct1])
  then show "((([] :: string), drop n (c # cs)), (cur, c # cs)) \<in> measure (\<lambda>(cur, s). length s)"
    by simp
qed auto

definition split_scope :: "string \<Rightarrow> string list" where
  "split_scope s = split_scope_aux [] s"

text \<open>\<^verbatim>\<open>(process.env.SCOPE.split(/ |, ?|%20/)).join(' ')\<close>\<close>

definition normalize_scope :: "string \<Rightarrow> string" where
  "normalize_scope s = join_sep '' '' (split_scope s)"

definition default_scopes :: jsval where
  "default_scopes = JArr [JStr ''crm.objects.contacts.read'']"

text \<open>
  \<^verbatim>\<open>SCOPES\<close> after line 25, from the value of \<^verbatim>\<open>process.env.SCOPE\<close> (\<open>None\<close> when
  the variable is unset). Note that it is an array by default and a string otherwise.
\<close>

definition scopes_value :: "string option \<Rightarrow> jsval" where
  "scopes_value env_scope =
     (case env_scope of
        None \<Rightarrow> default_scopes
      | Some s \<Rightarrow> if truthy (JStr s) then JStr (normalize_scope s) else default_scopes)"

section \<open>Separator-free pieces\<close>

text \<open>A string in which the separator matches at no position.\<close>

fun sep_free :: "string \<Rightarrow> bool" where
  "sep_free [] = True"
| "sep_free (c # cs) = (scope_sep_len (c # cs) = None \<and> sep_free cs)"

text \<open>
  A reference for the normalisation: scan the string once, writing one space for every
  match of the separator and copying every other character.
\<close>

function sep_to_space :: "string \<Rightarrow> string" where
  "sep_to_space [] = []"
| "sep_to_space (c # cs) =
     (case scope_sep_len (c # cs) of
        Some n \<Rightarrow> CHR '' '' # sep_to_space (drop n (c # cs))
      | None \<Rightarrow> c # sep_to_space cs)"
  by pat_completeness auto
termination
proof (relation "measure length")
  fix c cs n
  assume "scope_sep_len (c # cs) = Some n"
  then have "0 < n" by (rule scope_sep_len_Some [THEN conjunct1])
  then show "(drop n (c # cs), c # cs) \<in> measure length" by simp
qed auto

section \<open>Properties of the split\<close>

lemma scope_sep_len_None_prefix:
  "scope_sep_len (x @ y) = None \<Longrightarrow> scope_sep_len x = None"
  by (auto simp: scope_sep_len_def split: if_splits dest: take_eq_length)

lemma scope_sep_len_append_space:
  assumes "scope_sep_len (c # cs) = None" and "rest = [] \<or> hd rest = CHR '' ''"
  shows "scope_sep_len (c # cs @ rest) = None"
  using assms
  by (cases cs; cases rest) (auto simp: scope_sep_len_def take_Cons' split: if_splits list.splits)

lemma sep_free_iff: "sep_free x \<longleftrightarrow> (\<forall>i < length x. scope_sep_len (drop i x) = None)"
proof (induction x)
  case (Cons c cs)
  then show ?case by (auto simp: less_Suc_eq_0_disj)
qed simp

lemma split_scope_aux_sep_free_prefix:
  assumes "sep_free p" and "rest = [] \<or> hd rest = CHR '' ''"
  shows "split_scope_aux cur (p @ rest) = split_scope_aux (rev p @ cur) rest"
  using assms
proof (induction p arbitrary: cur)
  case (Cons c cs)
  have "scope_sep_len (c # cs @ rest) = None"
    using Cons.prems by (intro scope_sep_len_append_space) simp_all
  then show ?case using Cons by simp
qed simp

lemma split_scope_aux_space:
  "split_scope_aux cur (CHR '' '' # rest) = rev cur # split_scope_aux [] rest"
  by (simp add: scope_sep_len_def)

lemma split_join_aux:
  "\<forall>q \<in> set (p # ps). sep_free q \<Longrightarrow> split_scope_aux [] (join_sep '' '' (p # ps)) = p # ps"
proof (induction ps arbitrary: p)
  case Nil
  then show ?case using split_scope_aux_sep_free_prefix [of p "[]" "[]"] by simp
next
  case (Cons q qs)
  have "split_scope_aux [] (p @ CHR '' '' # join_sep '' '' (q # qs))
      = split_scope_aux (rev p) (CHR '' '' # join_sep '' '' (q # qs))"
    using Cons.prems split_scope_aux_sep_free_prefix [of p "CHR '' '' # join_sep '' '' (q # qs)" "[]"]
    by simp
  also have "\<dots> = p # split_scope_aux [] (join_sep '' '' (q # qs))"
    by (simp only: split_scope_aux_space rev_rev_ident)
  also have "\<dots> = p # q # qs" using Cons by simp
  finally show ?case by simp
qed

lemma split_scope_aux_pieces:
  "\<forall>i < length cur. scope_sep_len (drop i (rev cur) @ s) = None \<Longrightarrow>
   \<forall>p \<in> set (split_scope_aux cur s). sep_free p"
proof (induction cur s rule: split_scope_aux.induct)
  case (1 cur)
  then show ?case by (simp add: sep_free_iff)
next
  case (2 cur c cs)
  have emit: "sep_free (rev cur)"
    using "2.prems" by (auto simp: sep_free_iff intro: scope_sep_len_None_prefix)
  show ?case
  proof (cases "scope_sep_len (c # cs)")
    case None
    have h: "\<forall>i < length (c # cur). scope_sep_len (drop i (rev (c # cur)) @ cs) = None"
    proof (intro allI impI)
      fix i assume i: "i < length (c # cur)"
      show "scope_sep_len (drop i (rev (c # cur)) @ cs) = None"
      proof (cases "i < length cur")
        case True
        then show ?thesis using "2.prems" by simp
      next
        case False
        with i have "i = length cur" by simp
        then show ?thesis using None by simp
      qed
    qed
    from "2.IH"(1) [OF None h] None show ?thesis by simp
  next
    case (Some n)
    with emit "2.IH"(2) show ?thesis by simp
  qed
qed

lemma split_scope_aux_nonempty: "split_scope_aux cur s \<noteq> []"
  by (induction cur s rule: split_scope_aux.induct) (auto split: option.split)

lemma join_sep_Cons: "xs \<noteq> [] \<Longrightarrow> join_sep sep (x # xs) = x @ sep @ join_sep sep xs"
  by (cases xs) auto

lemma join_split_scope_aux: "join_sep '' '' (split_scope_aux cur s) = rev cur @ sep_to_space s"
proof (induction cur s rule: split_scope_aux.induct)
  case (1 cur)
  then show ?case by simp
next
  case (2 cur c cs)
  show ?case
  proof (cases "scope_sep_len (c # cs)")
    case None
    with "2.IH"(1) show ?thesis by simp
  next
    case (Some n)
    with "2.IH"(2) split_scope_aux_nonempty show ?thesis by (simp add: join_sep_Cons)
  qed
qed

lemma scope_sep_len_comma: "scope_sep_len (CHR '','' # cs) \<noteq> None"
  by (simp add: scope_sep_len_def)

lemma scope_sep_len_pct20: "scope_sep_len (CHR ''%'' # CHR ''2'' # CHR ''0'' # cs) = Some 3"
  by (simp add: scope_sep_len_def)

lemma sep_to_space_no_comma: "CHR '','' \<notin> set (sep_to_space s)"
proof (induction s rule: sep_to_space.induct)
  case (2 c cs)
  then show ?case
    using scope_sep_len_comma [of cs] by (cases "scope_sep_len (c # cs)") auto
qed simp

lemma sep_to_space_Cons_char:
  assumes "sep_to_space cs = d # r" and "d \<noteq> CHR '' ''"
  shows "\<exists>cs'. cs = d # cs' \<and> r = sep_to_space cs' \<and> scope_sep_len cs = None"
proof (cases cs)
  case Nil
  with assms show ?thesis by simp
next
  case (Cons e es)
  with assms show ?thesis by (cases "scope_sep_len (e # es)") auto
qed

lemma sep_to_space_no_pct20: "sep_to_space s \<noteq> xs @ ''%20'' @ ys"
proof (induction s arbitrary: xs rule: sep_to_space.induct)
  case 1
  then show ?case by simp
next
  case (2 c cs)
  show ?case
  proof (cases "scope_sep_len (c # cs)")
    case (Some n)
    with "2.IH"(2) [OF Some] show ?thesis by (cases xs) auto
  next
    case None
    show ?thesis
    proof (cases xs)
      case (Cons x xs')
      with None "2.IH"(1) [OF None] show ?thesis by auto
    next
      case Nil
      show ?thesis
      proof
        assume "sep_to_space (c # cs) = xs @ ''%20'' @ ys"
        with None Nil have c: "c = CHR ''%''" and t: "sep_to_space cs = CHR ''2'' # CHR ''0'' # ys" by auto
        obtain cs1 where 1: "cs = CHR ''2'' # cs1" "sep_to_space cs1 = CHR ''0'' # ys"
          using sep_to_space_Cons_char [OF t] by auto
        obtain cs2 where 2: "cs1 = CHR ''0'' # cs2"
          using sep_to_space_Cons_char [OF 1(2)] by auto
        from None c 1(1) 2 show False using scope_sep_len_pct20 [of cs2] by simp
      qed
    qed
  qed
qed

text \<open>
  C21: splitting inverts joining: a non-empty list of scope names none of which contains a
  separator is recovered from its space-joined string (empty names included).
\<close>

theorem split_scope_join:
  assumes "ps \<noteq> []" and "\<forall>p \<in> set ps. sep_free p"
  shows "split_scope (join_sep '' '' ps) = ps"
proof -
  obtain q qs where "ps = q # qs" using assms(1) by (cases ps) auto
  with assms(2) show ?thesis by (simp add: split_scope_def split_join_aux)
qed

theorem split_scope_join_witness:
  "[''crm.objects.contacts.read'', ''content''] \<noteq> []
   \<and> split_scope (join_sep '' '' [''crm.objects.contacts.read'', ''content'']) =
       [''crm.objects.contacts.read'', ''content'']"
  using split_scope_join [of "[''crm.objects.contacts.read'', ''content'']"]
  by (simp add: scope_sep_len_def)

text \<open>
  C22: splitting \<^verbatim>\<open>SCOPE\<close> at the regular expression and joining with spaces is the
  same as replacing every separator match by one space, scanning left to right. In
  particular adjacent separators give adjacent spaces: \<^verbatim>\<open>"a , b"\<close> becomes
  \<^verbatim>\<open>"a  b"\<close>.
\<close>

theorem normalize_scope_replaces_separators: "normalize_scope s = sep_to_space s"
  using join_split_scope_aux [of "[]" s] by (simp add: normalize_scope_def split_scope_def)

text \<open>
  C23: the normalised scope string never contains a comma or the text
  \<^verbatim>\<open>%20\<close>: every delimiter the specification allows is turned into a space.
\<close>

theorem normalize_scope_no_separators:
  "CHR '','' \<notin> set (normalize_scope s) \<and> \<not> (\<exists>xs ys. normalize_scope s = xs @ ''%20'' @ ys)"
  using join_split_scope_aux [of "[]" s] sep_to_space_no_comma [of s] sep_to_space_no_pct20 [of s]
  by (simp add: normalize_scope_def split_scope_def)

end
