(* ===== verification/Config.thy ===== *)
theory Config
  imports Scopes
begin

text \<open>
  Start-up of \<^verbatim>\<open>src/index.js\<close> (lines 9--27): the module-level constants read from
  the environment, and the check that aborts the process before the server listens when
  a credential is missing. The environment \<^verbatim>\<open>process.env\<close> is a map from variable
  names to strings.
\<close>

type_synonym env = "string \<rightharpoonup> string"

text \<open>\<^verbatim>\<open>process.env.NAME\<close>: a string, or \<^verbatim>\<open>undefined\<close> when the variable is unset.\<close>

definition env_val :: "env \<Rightarrow> string \<Rightarrow> jsval" where
  "env_val e k = (case e k of Some s \<Rightarrow> JStr s | None \<Rightarrow> JUndef)"

text \<open>The module-level constants after start-up.\<close>

record config =
  port :: jsval
  client_id :: string
  client_secret :: string
  session_secret :: string
  scopes :: jsval
  redirect_uri :: string

datatype startup_error = StartupError string

definition missing_env_message :: string where
  "missing_env_message = ''Missing CLIENT_ID, CLIENT_SECRET, or SESSION_SECRET environment variable.''"

text \<open>\<^verbatim>\<open>PORT = process.env.PORT || 3000\<close> (line 9).\<close>

definition port_value :: "env \<Rightarrow> jsval" where
  "port_value e = (if truthy (env_val e ''PORT'') then env_val e ''PORT'' else JNum 3000)"

text \<open>
  Lines 14--27: the \<^verbatim>\<open>throw\<close> of line 15 when one of the three variables is unset or
  empty, otherwise the constants; \<^verbatim>\<open>REDIRECT_URI\<close> interpolates \<^verbatim>\<open>PORT\<close>.
\<close>

definition startup :: "env \<Rightarrow> startup_error + config" where
  "startup e =
     (if \<not> truthy (env_val e ''CLIENT_ID'') \<or> \<not> truthy (env_val e ''CLIENT_SECRET'')
         \<or> \<not> truthy (env_val e ''SESSION_SECRET'')
      then Inl (StartupError missing_env_message)
      else Inr \<lparr>port = port_value e,
                client_id = the (e ''CLIENT_ID''),
                client_secret = the (e ''CLIENT_SECRET''),
                session_secret = the (e ''SESSION_SECRET''),
                scopes = scopes_value (e ''SCOPE''),
                redirect_uri = ''http://localhost:'' @ js_to_string (port_value e) @ ''/oauth-callback''\<rparr>)"

text \<open>
  A concrete environment and the configuration it starts with, used by the witnesses of
  the development.
\<close>

definition demo_env :: env where
  "demo_env = [''CLIENT_ID'' \<mapsto> ''cid'', ''CLIENT_SECRET'' \<mapsto> ''csecret'',
               ''SESSION_SECRET'' \<mapsto> ''ssecret'']"

definition demo_config :: config where
  "demo_config =
     \<lparr>port = JNum 3000, client_id = ''cid'', client_secret = ''csecret'',
      session_secret = ''ssecret'', scopes = default_scopes,
      redirect_uri = ''http://localhost:3000/oauth-callback''\<rparr>"

lemma startup_demo: "startup demo_env = Inr demo_config"
  by (simp add: startup_def demo_env_def demo_config_def env_val_def port_value_def
      scopes_value_def int_to_dec_def nat_to_dec.simps dec_digits_def)

lemma falsy_env_val: "\<not> truthy (env_val e k) \<longleftrightarrow> e k \<in> {None, Some []}"
  by (cases "e k") (auto simp: env_val_def)

lemma startup_scopes: "startup e = Inr cfg \<Longrightarrow> scopes cfg = scopes_value (e ''SCOPE'')"
  by (auto simp: startup_def split: if_splits)

text \<open>
  C24: start-up throws (before the server listens) exactly when one of
  \<^verbatim>\<open>CLIENT_ID\<close>, \<^verbatim>\<open>CLIENT_SECRET\<close>, \<^verbatim>\<open>SESSION_SECRET\<close> is unset or empty.
\<close>

theorem startup_rejects_missing_credentials:
  "(\<exists>msg. startup e = Inl (StartupError msg)) \<longleftrightarrow>
     (e ''CLIENT_ID'' \<in> {None, Some []} \<or> e ''CLIENT_SECRET'' \<in> {None, Some []}
      \<or> e ''SESSION_SECRET'' \<in> {None, Some []})"
  by (auto simp: startup_def falsy_env_val)

theorem startup_rejects_missing_credentials_witness:
  "(\<exists>msg. startup (demo_env(''CLIENT_ID'' := None)) = Inl (StartupError msg))"
  using startup_rejects_missing_credentials [of "demo_env(''CLIENT_ID'' := None)"] by simp

end
