(* ===== verification/TokenClient.thy ===== *)
theory TokenClient
  imports NodeCache Config
begin

text \<open>
  The token layer of \<^verbatim>\<open>src/index.js\<close>: the two module-level stores (lines 11--12),
  \<^verbatim>\<open>exchangeForTokens\<close> (lines 66--79), \<^verbatim>\<open>refreshAccessToken\<close> (81--90),
  \<^verbatim>\<open>getAccessToken\<close> (92--98), \<^verbatim>\<open>isAuthorized\<close> (100--102) and
  \<^verbatim>\<open>getContact\<close> (104--118). The HTTP client is the environment: each call issues
  one request, recorded in the outcome, and its result (a 2xx body, a non-2xx body, or no
  response) is an argument. Each operation returns its completion, the stores after it,
  its console output and the token requests it sent.
\<close>

section \<open>State and data\<close>

text \<open>
  \<^verbatim>\<open>refreshTokenStore\<close> is a plain object keyed by session id: assigning
  \<^verbatim>\<open>undefined\<close> to a key creates the key. \<^verbatim>\<open>accessTokenCache\<close> is the node-cache
  instance.
\<close>

record tstate =
  refresh_store :: "sid \<rightharpoonup> jsval"
  access_cache :: cache

definition init_tstate :: tstate where
  "init_tstate = \<lparr>refresh_store = Map.empty, access_cache = Map.empty\<rparr>"

text \<open>\<^verbatim>\<open>refreshTokenStore[userId]\<close>: \<^verbatim>\<open>undefined\<close> for a key never assigned.\<close>

definition store_read :: "tstate \<Rightarrow> sid \<Rightarrow> jsval" where
  "store_read st u = (case refresh_store st u of Some v \<Rightarrow> v | None \<Rightarrow> JUndef)"

text \<open>
  An exchange proof, the form posted to the token endpoint: the grant type, the client
  credentials, the redirect URI and one credential field (\<^verbatim>\<open>code\<close> or
  \<^verbatim>\<open>refresh_token\<close>) with its value.
\<close>

record exchange_proof =
  grant_type :: string
  proof_client_id :: string
  proof_client_secret :: string
  proof_redirect_uri :: string
  credential :: "string \<times> jsval"

text \<open>What an HTTP request of \<^verbatim>\<open>request-promise-native\<close> comes back with.\<close>

datatype http_result = Resp2xx body | RespStatus body | RespNone

text \<open>
  The outcome of an operation: its completion, the stores after it, what it wrote to the
  console, and the token requests it posted, in order.
\<close>

record 'a outcome =
  result :: "'a completion"
  ostate :: tstate
  logs :: "log_entry list"
  posts :: "exchange_proof list"

section \<open>exchangeForTokens\<close>

text \<open>
  \<^verbatim>\<open>Math.round(tokens.expires_in * 0.75)\<close>: ToNumber of \<^verbatim>\<open>expires_in\<close>, times
  \<open>3/4\<close>, rounded as \<^verbatim>\<open>Math.round\<close> does, to \<open>\<lfloor>x + 1/2\<rfloor>\<close> (ties towards
  \<open>+\<infinity>\<close>); \<open>None\<close> is NaN.
\<close>

definition ttl_seconds :: "jsval \<Rightarrow> int option" where
  "ttl_seconds ex = map_option (\<lambda>x. \<lfloor>3 * x / 4 + 1 / 2\<rfloor>) (to_number ex)"

text \<open>
  Lines 72--74, after \<^verbatim>\<open>JSON.parse\<close>: store the refresh token, cache the access
  token with the computed TTL, return the access token. Reading a property of a
  \<^verbatim>\<open>null\<close> body throws before anything is stored.
\<close>

definition store_tokens :: "sid \<Rightarrow> jsval \<Rightarrow> ms \<Rightarrow> tstate \<Rightarrow> jsval completion \<times> tstate" where
  "store_tokens u tokens now st =
     (case get_prop tokens ''refresh_token'' of
        Throw e \<Rightarrow> (Throw e, st)
      | Normal rt \<Rightarrow>
          (let st1 = st\<lparr>refresh_store := (refresh_store st)(u \<mapsto> rt)\<rparr> in
           case get_prop tokens ''access_token'' of
             Throw e \<Rightarrow> (Throw e, st1)
           | Normal atok \<Rightarrow>
               (case get_prop tokens ''expires_in'' of
                  Throw e \<Rightarrow> (Throw e, st1)
                | Normal ex \<Rightarrow>
                    (Normal atok,
                     st1\<lparr>access_cache := cache_set u atok (ttl_seconds ex) now (access_cache st1)\<rparr>))))"

text \<open>The \<^verbatim>\<open>try\<close> block of lines 67--74.\<close>

definition exchange_try :: "sid \<Rightarrow> http_result \<Rightarrow> ms \<Rightarrow> tstate \<Rightarrow> jsval completion \<times> tstate" where
  "exchange_try u r now st =
     (case r of
        Resp2xx b \<Rightarrow>
          (case json_parse b of
             Throw e \<Rightarrow> (Throw e, st)
           | Normal tokens \<Rightarrow> store_tokens u tokens now st)
      | RespStatus b \<Rightarrow> (Throw (StatusCodeError b), st)
      | RespNone \<Rightarrow> (Throw RequestError, st))"

text \<open>The \<^verbatim>\<open>catch\<close> block of lines 75--78: \<^verbatim>\<open>JSON.parse(e.response.body)\<close>.\<close>

definition exchange_catch :: "exn \<Rightarrow> jsval completion" where
  "exchange_catch e = cbind (response_body e) json_parse"

definition exchange_error_log :: "exchange_proof \<Rightarrow> log_entry" where
  "exchange_error_log p =
     LogErr (''Error exchanging '' @ grant_type p @ '' for access token'')"

text \<open>
  \<^verbatim>\<open>exchangeForTokens(userId, exchangeProof)\<close>: one POST of the proof; the
  response \<open>r\<close> arrives at time \<open>now\<close>.
\<close>

definition exchange_for_tokens ::
  "sid \<Rightarrow> exchange_proof \<Rightarrow> http_result \<Rightarrow> ms \<Rightarrow> tstate \<Rightarrow> jsval outcome" where
  "exchange_for_tokens u p r now st =
     (case exchange_try u r now st of
        (Normal atok, st') \<Rightarrow> \<lparr>result = Normal atok, ostate = st', logs = [], posts = [p]\<rparr>
      | (Throw e, st') \<Rightarrow>
          \<lparr>result = exchange_catch e, ostate = st', logs = [exchange_error_log p], posts = [p]\<rparr>)"

section \<open>refreshAccessToken and getAccessToken\<close>

text \<open>Lines 82--88: the refresh proof, with the stored refresh token as read now.\<close>

definition refresh_proof :: "config \<Rightarrow> sid \<Rightarrow> tstate \<Rightarrow> exchange_proof" where
  "refresh_proof cfg u st =
     \<lparr>grant_type = ''refresh_token'', proof_client_id = client_id cfg,
      proof_client_secret = client_secret cfg, proof_redirect_uri = redirect_uri cfg,
      credential = (''refresh_token'', store_read st u)\<rparr>"

definition refresh_access_token ::
  "config \<Rightarrow> sid \<Rightarrow> http_result \<Rightarrow> ms \<Rightarrow> tstate \<Rightarrow> jsval outcome" where
  "refresh_access_token cfg u r now st = exchange_for_tokens u (refresh_proof cfg u st) r now st"

text \<open>
  \<^verbatim>\<open>getAccessToken(userId)\<close>: the first \<^verbatim>\<open>get\<close> runs at time \<open>t1\<close>. If it is
  falsy, a refresh is posted and its response \<open>r\<close> handled at time \<open>t2\<close>, and the
  second \<^verbatim>\<open>get\<close> runs then; a rejected refresh rejects the call. If it is truthy, the
  second \<^verbatim>\<open>get\<close> follows synchronously (at \<open>t2\<close>, not earlier than \<open>t1\<close>) and no
  request is sent.
\<close>

definition refreshing_log :: log_entry where
  "refreshing_log = Log ''Refreshing expired access token''"

text \<open>
  Lines 95--97 after the refresh settles: a rejected refresh rejects the call;
  otherwise the second \<^verbatim>\<open>get\<close> runs at time \<open>t2\<close> and its value is returned.
\<close>

definition refresh_continue :: "sid \<Rightarrow> jsval outcome \<Rightarrow> ms \<Rightarrow> jsval outcome" where
  "refresh_continue u o1 t2 =
     (case result o1 of
        Throw e \<Rightarrow> o1
      | Normal _ \<Rightarrow>
          (let (v2, c2) = cache_get u t2 (access_cache (ostate o1)) in
           \<lparr>result = Normal v2, ostate = (ostate o1)\<lparr>access_cache := c2\<rparr>,
            logs = logs o1, posts = posts o1\<rparr>))"

definition get_access_token ::
  "config \<Rightarrow> sid \<Rightarrow> http_result \<Rightarrow> ms \<Rightarrow> ms \<Rightarrow> tstate \<Rightarrow> jsval outcome" where
  "get_access_token cfg u r t1 t2 st =
     (let (v1, c1) = cache_get u t1 (access_cache st);
          st1 = st\<lparr>access_cache := c1\<rparr>
      in if \<not> truthy v1 then
           (let o2 = refresh_continue u (refresh_access_token cfg u r t2 st1) t2 in
            o2\<lparr>logs := refreshing_log # logs o2\<rparr>)
         else
           (let (v2, c2) = cache_get u t2 c1 in
            \<lparr>result = Normal v2, ostate = st1\<lparr>access_cache := c2\<rparr>, logs = [], posts = []\<rparr>))"

section \<open>isAuthorized and getContact\<close>

text \<open>\<^verbatim>\<open>refreshTokenStore[userId] ? true : false\<close>\<close>

definition is_authorized :: "tstate \<Rightarrow> sid \<Rightarrow> bool" where
  "is_authorized st u = truthy (store_read st u)"

text \<open>
  \<^verbatim>\<open>getContact(accessToken)\<close>: a GET with the bearer header (returned first), then
  \<^verbatim>\<open>JSON.parse(result).contacts[0]\<close>, or on failure the parsed error body.
\<close>

definition bearer_header :: "jsval \<Rightarrow> string" where
  "bearer_header atok = ''Bearer '' @ js_to_string atok"

definition get_contact :: "jsval \<Rightarrow> http_result \<Rightarrow> string \<times> jsval completion \<times> log_entry list" where
  "get_contact atok r =
     (let attempt =
        (case r of
           Resp2xx b \<Rightarrow> cbind (json_parse b) (\<lambda>v. cbind (get_prop v ''contacts'') (\<lambda>cs. get_index cs 0))
         | RespStatus b \<Rightarrow> Throw (StatusCodeError b)
         | RespNone \<Rightarrow> Throw RequestError)
      in case attempt of
           Normal c \<Rightarrow> (bearer_header atok, Normal c, [])
         | Throw e \<Rightarrow> (bearer_header atok, cbind (response_body e) json_parse,
                       [LogErr ''Unable to retrieve contact'']))"

section \<open>Properties of the token exchange\<close>

lemma ttl_seconds_JNum [simp]: "ttl_seconds (JNum n) = Some ((3 * n + 2) div 4)"
proof -
  have "3 * rat_of_int n / 4 + 1 / 2 = rat_of_int (3 * n + 2) / rat_of_int 4" by simp
  then have "\<lfloor>3 * rat_of_int n / 4 + 1 / 2\<rfloor> = (3 * n + 2) div 4"
    by (simp only: floor_divide_of_int_eq)
  then show ?thesis by (simp add: ttl_seconds_def)
qed


lemma store_tokens_obj:
  "store_tokens u (JObj fs) now st =
     (Normal (obj_prop fs ''access_token''),
      \<lparr>refresh_store = (refresh_store st)(u \<mapsto> obj_prop fs ''refresh_token''),
       access_cache = cache_set u (obj_prop fs ''access_token'')
                        (ttl_seconds (obj_prop fs ''expires_in'')) now (access_cache st)\<rparr>)"
  by (simp add: store_tokens_def)

lemma exchange_obj_eq:
  "exchange_for_tokens u p (Resp2xx (Json (JObj fs))) now st =
     \<lparr>result = Normal (obj_prop fs ''access_token''),
      ostate = \<lparr>refresh_store = (refresh_store st)(u \<mapsto> obj_prop fs ''refresh_token''),
                access_cache = cache_set u (obj_prop fs ''access_token'')
                  (ttl_seconds (obj_prop fs ''expires_in'')) now (access_cache st)\<rparr>,
      logs = [], posts = [p]\<rparr>"
  by (simp add: exchange_for_tokens_def exchange_try_def store_tokens_obj)

lemma exchange_status_eq:
  "exchange_for_tokens u p (RespStatus b) now st =
     \<lparr>result = json_parse b, ostate = st, logs = [exchange_error_log p], posts = [p]\<rparr>"
  by (simp add: exchange_for_tokens_def exchange_try_def exchange_catch_def)

lemma exchange_reject_eq:
  "r \<in> {RespNone, Resp2xx Unparseable, Resp2xx (Json JNull), Resp2xx (Json JUndef)} \<Longrightarrow>
   exchange_for_tokens u p r now st =
     \<lparr>result = Throw TypeError, ostate = st, logs = [exchange_error_log p], posts = [p]\<rparr>"
  by (auto simp: exchange_for_tokens_def exchange_try_def exchange_catch_def store_tokens_def)

lemma exchange_for_tokens_posts [simp]: "posts (exchange_for_tokens u p r now st) = [p]"
  by (simp add: exchange_for_tokens_def split: prod.splits completion.splits)

lemma refresh_proof_cache_indep [simp]:
  "refresh_proof cfg u (st\<lparr>access_cache := c\<rparr>) = refresh_proof cfg u st"
  by (simp add: refresh_proof_def store_read_def)

lemma refresh_continue_posts [simp]: "posts (refresh_continue u o1 t) = posts o1"
  by (simp add: refresh_continue_def split: completion.split prod.split)

lemma get_access_token_posts:
  "posts (get_access_token cfg u r t1 t2 st) =
     (if truthy (cache_peek u t1 (access_cache st)) then [] else [refresh_proof cfg u st])"
proof -
  obtain v1 c1 where g: "cache_get u t1 (access_cache st) = (v1, c1)" by force
  then have "v1 = cache_peek u t1 (access_cache st)"
    by (metis fst_cache_get fst_conv)
  then show ?thesis
    by (simp add: get_access_token_def refresh_access_token_def g Let_def
        split: completion.split prod.split)
qed

lemma get_access_token_miss_logs:
  "\<not> truthy (cache_peek u t1 (access_cache st)) \<Longrightarrow>
   hd (logs (get_access_token cfg u r t1 t2 st)) = refreshing_log"
proof -
  assume miss: "\<not> truthy (cache_peek u t1 (access_cache st))"
  obtain v1 c1 where g: "cache_get u t1 (access_cache st) = (v1, c1)" by force
  then have "v1 = cache_peek u t1 (access_cache st)"
    by (metis fst_cache_get fst_conv)
  with miss show ?thesis
    by (simp add: get_access_token_def g Let_def split: completion.split prod.split)
qed


text \<open>
  C2: every other response leaves both stores unchanged and logs the grant type: a
  non-2xx response returns its parsed body (or throws SyntaxError when it does not parse);
  no response, an unparseable 2xx body or a \<^verbatim>\<open>null\<close> 2xx body make the
  \<^verbatim>\<open>catch\<close> block itself throw a TypeError.
\<close>

theorem exchange_for_tokens_error:
  assumes "\<not> (\<exists>v. r = Resp2xx (Json v) \<and> v \<noteq> JNull \<and> v \<noteq> JUndef)"
  shows "exchange_for_tokens u p r now st =
     \<lparr>result = (case r of RespStatus b \<Rightarrow> json_parse b | _ \<Rightarrow> Throw TypeError),
      ostate = st, logs = [exchange_error_log p], posts = [p]\<rparr>"
proof (cases r)
  case (Resp2xx b)
  with assms show ?thesis
    by (cases b) (auto simp: exchange_for_tokens_def exchange_try_def store_tokens_def
        exchange_catch_def)
qed (simp_all add: exchange_for_tokens_def exchange_try_def exchange_catch_def)

theorem exchange_for_tokens_error_witness:
  "exchange_for_tokens ''s'' (refresh_proof demo_config ''s'' init_tstate) RespNone 0 init_tstate =
     \<lparr>result = Throw TypeError, ostate = init_tstate,
      logs = [exchange_error_log (refresh_proof demo_config ''s'' init_tstate)],
      posts = [refresh_proof demo_config ''s'' init_tstate]\<rparr>"
  using exchange_for_tokens_error [of RespNone "''s''" "refresh_proof demo_config ''s'' init_tstate"
      0 init_tstate]
  by simp

text \<open>
  C3: while the cached access token is truthy and not stale, \<^verbatim>\<open>getAccessToken\<close>
  returns it, changes nothing, logs nothing and sends no exchange request.
\<close>

theorem get_access_token_cached:
  assumes "access_cache st u = Some e" and "truthy (cval e)"
    and "t1 \<le> t2" and "\<not> stale e t2"
  shows "get_access_token cfg u r t1 t2 st =
           \<lparr>result = Normal (cval e), ostate = st, logs = [], posts = []\<rparr>"
proof -
  have "\<not> stale e t1" using assms(3,4) stale_mono by blast
  with assms show ?thesis
    by (simp add: get_access_token_def cache_get_fresh)
qed

theorem get_access_token_cached_witness:
  "get_access_token demo_config ''s'' RespNone 5 6
     \<lparr>refresh_store = [''s'' \<mapsto> JStr ''r''], access_cache = [''s'' \<mapsto> \<lparr>cval = JStr ''t'', ct = 1000\<rparr>]\<rparr> =
   \<lparr>result = Normal (JStr ''t''),
    ostate = \<lparr>refresh_store = [''s'' \<mapsto> JStr ''r''], access_cache = [''s'' \<mapsto> \<lparr>cval = JStr ''t'', ct = 1000\<rparr>]\<rparr>,
    logs = [], posts = []\<rparr>"
  using get_access_token_cached
    [of "\<lparr>refresh_store = [''s'' \<mapsto> JStr ''r''], access_cache = [''s'' \<mapsto> \<lparr>cval = JStr ''t'', ct = 1000\<rparr>]\<rparr>"
        "''s''" "\<lparr>cval = JStr ''t'', ct = 1000\<rparr>" 5 6 demo_config RespNone]
  by (simp add: stale_def)

text \<open>
  C4: when the cache yields a falsy value (no entry, a stale entry, or a falsy token),
  \<^verbatim>\<open>getAccessToken\<close> posts exactly one refresh request, carrying the refresh token
  stored for the session, and logs that it is refreshing.
\<close>

theorem get_access_token_miss:
  assumes "\<not> truthy (cache_peek u t1 (access_cache st))"
  shows "posts (get_access_token cfg u r t1 t2 st) = [refresh_proof cfg u st]
       \<and> hd (logs (get_access_token cfg u r t1 t2 st)) = refreshing_log"
  using assms by (simp add: get_access_token_posts get_access_token_miss_logs)

theorem get_access_token_miss_witness:
  "posts (get_access_token demo_config ''s'' RespNone 0 0 init_tstate) =
     [refresh_proof demo_config ''s'' init_tstate]
   \<and> hd (logs (get_access_token demo_config ''s'' RespNone 0 0 init_tstate)) = refreshing_log"
  using get_access_token_miss [of "''s''" 0 init_tstate demo_config RespNone 0]
  by (simp add: init_tstate_def cache_peek_def)

text \<open>
  C5: after a successful exchange at time \<open>t0\<close> whose TTL is \<open>k > 0\<close> seconds, a
  later \<^verbatim>\<open>getAccessToken\<close> sends no request up to \<open>t0 + 1000 k\<close> ms and exactly
  one refresh request after it.
\<close>

theorem access_token_expiry:
  assumes "0 \<le> t0" and "ttl_seconds (obj_prop fs ''expires_in'') = Some k" and "0 < k"
    and "truthy (obj_prop fs ''access_token'')"
    and "st' = ostate (exchange_for_tokens u p (Resp2xx (Json (JObj fs))) t0 st)"
  shows "posts (get_access_token cfg u r t1 t2 st') =
           (if t0 + k * 1000 < t1 then [refresh_proof cfg u st'] else [])"
proof -
  have "cache_peek u t1 (access_cache st') =
          (if t0 + k * 1000 < t1 then JUndef else obj_prop fs ''access_token'')"
    using assms livetime_pos [of t0 k]
    by (simp add: exchange_obj_eq cache_peek_set_same stale_def)
  with assms(4) show ?thesis by (simp add: get_access_token_posts)
qed

theorem access_token_expiry_witness:
  "posts (get_access_token demo_config ''s'' RespNone 2700001 2700001
      (ostate (exchange_for_tokens ''s'' (refresh_proof demo_config ''s'' init_tstate)
         (Resp2xx (Json (JObj [(''access_token'', JStr ''t''), (''refresh_token'', JStr ''r''),
                               (''expires_in'', JNum 3600)]))) 0 init_tstate))) =
   [refresh_proof demo_config ''s''
      (ostate (exchange_for_tokens ''s'' (refresh_proof demo_config ''s'' init_tstate)
         (Resp2xx (Json (JObj [(''access_token'', JStr ''t''), (''refresh_token'', JStr ''r''),
                               (''expires_in'', JNum 3600)]))) 0 init_tstate))]"
  using access_token_expiry
    [of 0 "[(''access_token'', JStr ''t''), (''refresh_token'', JStr ''r''), (''expires_in'', JNum 3600)]"
        2700 _ "''s''" "refresh_proof demo_config ''s'' init_tstate" init_tstate demo_config RespNone
        2700001 2700001]
  by (simp add: obj_prop_def)

text \<open>
  C6: the TTL is \<^verbatim>\<open>Math.round(expires_in * 0.75)\<close>: for an integer
  \<open>expires_in = n\<close> it is the integer \<open>k\<close> with \<open>3n/4 - 1/2 < k \<le> 3n/4 + 1/2\<close>,
  that is, the nearest integer to \<open>3n/4\<close>, ties rounded up.
\<close>

theorem ttl_seconds_round:
  "ttl_seconds (JNum n) = Some k \<longleftrightarrow> 3 * n - 2 < 4 * k \<and> 4 * k \<le> 3 * n + 2"
  by auto

theorem ttl_seconds_round_witness:
  "ttl_seconds (JNum 3600) = Some 2700 \<and> 3 * 3600 - 2 < 4 * (2700::int) \<and> 4 * 2700 \<le> 3 * (3600::int) + 2"
  using ttl_seconds_round [of 3600 2700] by simp

text \<open>
  C7: the TTL is the floor of \<open>3n/4\<close>, as the specification states, exactly when
  \<open>3n mod 4 < 2\<close>; otherwise (for instance \<open>n = 1801\<close>, TTL 1351 rather than 1350) the
  code caches the token for one second more.
\<close>

theorem ttl_seconds_floor:
  "ttl_seconds (JNum n) = Some (3 * n div 4) \<longleftrightarrow> 3 * n mod 4 < 2"
  by simp presburger

theorem ttl_seconds_floor_witness:
  "ttl_seconds (JNum 1801) \<noteq> Some (3 * 1801 div 4) \<and> ttl_seconds (JNum 1801) = Some 1351"
  using ttl_seconds_floor [of 1801] by simp






text \<open>
  C33: a 2xx contacts response that parses but has no \<^verbatim>\<open>contacts\<close> array (the
  field absent or \<^verbatim>\<open>null\<close>, or the body itself \<^verbatim>\<open>null\<close>, or unparseable) makes
  \<^verbatim>\<open>.contacts[0]\<close> or \<^verbatim>\<open>JSON.parse\<close> throw inside the \<^verbatim>\<open>try\<close>; the
  \<^verbatim>\<open>catch\<close> block then reads \<^verbatim>\<open>e.response.body\<close> of an exception that has no
  response, so \<^verbatim>\<open>getContact\<close> rejects with a TypeError instead of returning an error
  payload.
\<close>

theorem get_contact_missing_contacts:
  assumes "b \<in> {Unparseable, Json JNull, Json JUndef} \<or> (\<exists>fs. b = Json (JObj fs) \<and> obj_prop fs ''contacts'' \<in> {JUndef, JNull})"
  shows "get_contact atok (Resp2xx b) = (''Bearer '' @ js_to_string atok, Throw TypeError, [LogErr ''Unable to retrieve contact''])"
  using assms by (auto simp: get_contact_def bearer_header_def)

theorem get_contact_missing_contacts_witness:
  "get_contact (JStr ''t'') (Resp2xx (Json (JObj [(''total'', JNum 0)]))) =
     (''Bearer t'', Throw TypeError, [LogErr ''Unable to retrieve contact''])"
  using get_contact_missing_contacts [of "Json (JObj [(''total'', JNum 0)])" "JStr ''t''"]
  by (simp add: obj_prop_def)

end
