(* ===== verification/UriEncode.thy ===== *)
theory UriEncode
  imports JsValue
begin

text \<open>
  \<^verbatim>\<open>encodeURIComponent\<close>, which builds the query of the authorization URL
  (\<^verbatim>\<open>src/index.js\<close> lines 37--41), and the decoding a URL parser applies to a
  query value (\<^verbatim>\<open>decodeURIComponent\<close>). Characters are the code points below 256
  (the model's \<open>char\<close>); each is kept when it is unreserved and otherwise written as
  the percent-escaped bytes of its UTF-8 encoding, upper-case hexadecimal. The decoder
  accepts exactly the percent-escaped UTF-8 of code points below 256 and returns
  \<open>None\<close> (a URIError) on malformed escapes. The theory proves that decoding inverts
  encoding and that an encoded string contains only unreserved characters,
  \<^verbatim>\<open>%\<close> and hexadecimal digits, so it never contains \<^verbatim>\<open>&\<close>, \<^verbatim>\<open>=\<close> or
  \<^verbatim>\<open>#\<close>.
\<close>

section \<open>Encoding and decoding\<close>

definition hex_digits :: string where
  "hex_digits = ''0123456789ABCDEF''"

definition uri_unreserved :: string where
  "uri_unreserved =
     ''ABCDEFGHIJKLMNOPQRSTUVWXYZabcdefghijklmnopqrstuvwxyz0123456789-_.!~*'()''"

definition pct_byte :: "nat \<Rightarrow> string" where
  "pct_byte b = [CHR ''%'', hex_digits ! (b div 16), hex_digits ! (b mod 16)]"

definition utf8_bytes :: "char \<Rightarrow> nat list" where
  "utf8_bytes c =
     (let n = of_char c in if n < 128 then [n] else [192 + n div 64, 128 + n mod 64])"

definition encode_char :: "char \<Rightarrow> string" where
  "encode_char c = (if c \<in> set uri_unreserved then [c] else concat (map pct_byte (utf8_bytes c)))"

definition encode_uri_component :: "string \<Rightarrow> string" where
  "encode_uri_component s = concat (map encode_char s)"

definition hex_val :: "char \<Rightarrow> nat option" where
  "hex_val c =
     (let n = of_char c in
      if 48 \<le> n \<and> n \<le> 57 then Some (n - 48)
      else if 65 \<le> n \<and> n \<le> 70 then Some (n - 55)
      else if 97 \<le> n \<and> n \<le> 102 then Some (n - 87)
      else None)"

definition hex_byte :: "char \<Rightarrow> char \<Rightarrow> nat option" where
  "hex_byte h l = (case (hex_val h, hex_val l) of (Some a, Some b) \<Rightarrow> Some (16 * a + b) | _ \<Rightarrow> None)"

fun uri_decode :: "string \<Rightarrow> string option" where
  "uri_decode [] = Some []"
| "uri_decode (c # s) =
     (if c \<noteq> CHR ''%'' then map_option (Cons c) (uri_decode s)
      else case s of
        h1 # h2 # rest \<Rightarrow>
          (case hex_byte h1 h2 of
             None \<Rightarrow> None
           | Some b \<Rightarrow>
               if b < 128 then map_option (Cons (char_of b)) (uri_decode rest)
               else if b = 194 \<or> b = 195 then
                 (case rest of
                    c3 # h3 # h4 # rest' \<Rightarrow>
                      (if c3 \<noteq> CHR ''%'' then None
                       else case hex_byte h3 h4 of
                         None \<Rightarrow> None
                       | Some b2 \<Rightarrow>
                           if 128 \<le> b2 \<and> b2 < 192
                           then map_option (Cons (char_of ((b - 192) * 64 + (b2 - 128)))) (uri_decode rest')
                           else None)
                  | _ \<Rightarrow> None)
               else None)
      | _ \<Rightarrow> None)"

text \<open>
  Reading a query string as a URL parser does: the text after the first \<^verbatim>\<open>?\<close> up
  to the fragment (\<^verbatim>\<open>#\<close>), split at every \<^verbatim>\<open>&\<close>, each part split at its
  first \<^verbatim>\<open>=\<close>. The values are returned undecoded; \<open>uri_decode\<close> decodes them,
  which agrees with a server's query decoding on values without \<^verbatim>\<open>+\<close>.
\<close>

fun split_on :: "char \<Rightarrow> string \<Rightarrow> string list" where
  "split_on d [] = [[]]"
| "split_on d (c # s) =
     (if c = d then [] # split_on d s
      else (case split_on d s of p # ps \<Rightarrow> (c # p) # ps | [] \<Rightarrow> [[c]]))"

definition query_pair :: "string \<Rightarrow> string \<times> string" where
  "query_pair p = (takeWhile (\<lambda>c. c \<noteq> CHR ''='') p, drop 1 (dropWhile (\<lambda>c. c \<noteq> CHR ''='') p))"

definition query_params :: "string \<Rightarrow> (string \<times> string) list" where
  "query_params url =
     map query_pair (split_on CHR ''&''
       (takeWhile (\<lambda>c. c \<noteq> CHR ''#'') (drop 1 (dropWhile (\<lambda>c. c \<noteq> CHR ''?'') url))))"

section \<open>Lemmas\<close>

lemma hex_val_digit: "d < 16 \<Longrightarrow> hex_val (hex_digits ! d) = Some d"
proof -
  assume "d < 16"
  then have "d \<in> set [0..<16]" by simp
  then show ?thesis
    by (simp add: upt_rec hex_digits_def hex_val_def) (elim disjE; simp)
qed

lemma hex_byte_pct: "b < 256 \<Longrightarrow> hex_byte (hex_digits ! (b div 16)) (hex_digits ! (b mod 16)) = Some b"
  by (simp add: hex_byte_def hex_val_digit less_mult_imp_div_less)

lemma percent_not_unreserved [simp]: "CHR ''%'' \<notin> set uri_unreserved"
  by (simp add: uri_unreserved_def)

lemma decode_pct_ascii:
  "n < 128 \<Longrightarrow> uri_decode (pct_byte n @ t) = map_option (Cons (char_of n)) (uri_decode t)"
  using hex_byte_pct [of n] by (simp add: pct_byte_def)

lemma decode_pct_latin:
  assumes "128 \<le> n" and "n < 256"
  shows "uri_decode (pct_byte (192 + n div 64) @ pct_byte (128 + n mod 64) @ t) =
           map_option (Cons (char_of n)) (uri_decode t)"
proof -
  have d: "n div 64 = 2 \<or> n div 64 = 3" using assms by linarith
  have lo: "128 + n mod 64 < 256" by simp
  have hi: "192 + n div 64 < 256" using d by auto
  have rt: "(192 + n div 64 - 192) * 64 + (128 + n mod 64 - 128) = n" by simp
  show ?thesis
    using d hex_byte_pct [OF lo] hex_byte_pct [OF hi] rt by (auto simp: pct_byte_def)
qed

lemma decode_encode_char:
  "uri_decode (encode_char c @ t) = map_option (Cons c) (uri_decode t)"
proof (cases "c \<in> set uri_unreserved")
  case True
  then have "c \<noteq> CHR ''%''" by auto
  with True show ?thesis by (simp add: encode_char_def)
next
  case False
  have n256: "(of_char c :: nat) < 256" by simp
  show ?thesis
  proof (cases "(of_char c :: nat) < 128")
    case True
    with False decode_pct_ascii [OF True, of t] show ?thesis
      by (simp add: encode_char_def utf8_bytes_def)
  next
    case big: False
    with False decode_pct_latin [of "of_char c" t] n256 show ?thesis
      by (simp add: encode_char_def utf8_bytes_def Let_def)
  qed
qed

theorem uri_decode_encode: "uri_decode (encode_uri_component s) = Some s"
  by (induction s) (simp_all add: encode_uri_component_def decode_encode_char)

lemma hex_digit_mem: "i < 16 \<Longrightarrow> hex_digits ! i \<in> set hex_digits"
  by (rule nth_mem) (simp add: hex_digits_def)

lemma pct_byte_chars: "b < 256 \<Longrightarrow> set (pct_byte b) \<subseteq> insert CHR ''%'' (set hex_digits)"
  by (simp add: pct_byte_def hex_digit_mem less_mult_imp_div_less)

lemma utf8_bytes_lt: "x \<in> set (utf8_bytes c) \<Longrightarrow> x < 256"
proof -
  have n: "(of_char c :: nat) < 256" by simp
  then have "(of_char c :: nat) div 64 < 4" by (simp add: less_mult_imp_div_less)
  with n show "x \<in> set (utf8_bytes c) \<Longrightarrow> x < 256"
    by (auto simp: utf8_bytes_def Let_def split: if_splits)
qed

lemma encode_char_chars:
  "set (encode_char c) \<subseteq> set uri_unreserved \<union> insert CHR ''%'' (set hex_digits)"
proof (cases "c \<in> set uri_unreserved")
  case True
  then show ?thesis by (simp add: encode_char_def)
next
  case False
  have "set (concat (map pct_byte (utf8_bytes c))) \<subseteq> insert CHR ''%'' (set hex_digits)"
    using pct_byte_chars utf8_bytes_lt by auto
  with False show ?thesis by (auto simp: encode_char_def)
qed

theorem encode_uri_component_chars:
  "set (encode_uri_component s) \<subseteq> set uri_unreserved \<union> insert CHR ''%'' (set hex_digits)"
  using encode_char_chars by (auto simp: encode_uri_component_def)

lemma encode_uri_component_no_delims:
  "c \<in> {CHR ''&'', CHR ''='', CHR ''#'', CHR ''?''} \<Longrightarrow> c \<notin> set (encode_uri_component s)"
  using encode_uri_component_chars [of s]
  by (auto simp: uri_unreserved_def hex_digits_def)

lemma split_on_no_delim: "d \<notin> set a \<Longrightarrow> split_on d a = [a]"
  by (induction a) auto

lemma split_on_append: "d \<notin> set a \<Longrightarrow> split_on d (a @ d # b) = a # split_on d b"
  by (induction a) auto

lemma query_pair_eq: "CHR ''='' \<notin> set k \<Longrightarrow> query_pair (k @ CHR ''='' # v) = (k, v)"
  by (induction k) (auto simp: query_pair_def)

lemma unreserved_no_delims:
  "c \<in> set uri_unreserved \<Longrightarrow> c \<noteq> CHR ''&'' \<and> c \<noteq> CHR ''='' \<and> c \<noteq> CHR ''#'' \<and> c \<noteq> CHR ''?''"
  by (auto simp: uri_unreserved_def)

lemma query_pair_no_eq:
  assumes "CHR ''='' \<notin> set k"
  shows "query_pair k = (k, [])"
proof -
  have "takeWhile (\<lambda>c. c \<noteq> CHR ''='') k = k" "dropWhile (\<lambda>c. c \<noteq> CHR ''='') k = []"
    using assms by (auto simp: takeWhile_eq_all_conv)
  then show ?thesis unfolding query_pair_def by (simp only: drop_Nil)
qed

lemma uri_decode_unreserved: "set s \<subseteq> set uri_unreserved \<Longrightarrow> uri_decode s = Some s"
proof (induction s)
  case (Cons c s)
  then have "c \<noteq> CHR ''%''" using percent_not_unreserved by auto
  with Cons show ?case by simp
qed simp

end
