(* ===== verification/Routes.thy ===== *)
theory Routes
  imports TokenClient UriEncode
begin

text \<open>
  The HTTP route layer of \<^verbatim>\<open>src/index.js\<close>: the authorization URL (lines 37--41)
  and the five handlers \<^verbatim>\<open>GET /install\<close> (43--45), \<^verbatim>\<open>GET /oauth-callback\<close>
  (47--64), \<^verbatim>\<open>GET /\<close> (120--130), \<^verbatim>\<open>GET /error\<close> (132--136) and
  \<^verbatim>\<open>POST /webhook\<close> (138--156). A handler takes the session id \<^verbatim>\<open>req.sessionID\<close>,
  the parsed query or body, and the token stores; it returns the response it sends,
  or \<open>NoReply\<close> when it returns without sending one, inside a completion whose
  \<open>Throw\<close> is a rejected handler promise (Express 4 does not catch it, so no response is
  sent and the rejection is unhandled).
\<close>

section \<open>Requests and responses\<close>

text \<open>
  The requests the routes accept, with what the handlers read of them: the query
  parameters \<^verbatim>\<open>code\<close> and \<^verbatim>\<open>msg\<close> and the JSON body of the webhook, as the
  express query and body parsers deliver them (\<^verbatim>\<open>undefined\<close> when absent).
\<close>

datatype request =
    Install
  | OAuthCallback jsval
  | Home
  | ErrorPage jsval
  | Webhook jsval

text \<open>
  \<open>Redirect\<close>: \<^verbatim>\<open>res.redirect(url)\<close>, a 302 to the URL the handler passes.
  \<open>Html\<close>: a 200 with \<^verbatim>\<open>Content-Type: text/html\<close> and the bytes written before
  \<^verbatim>\<open>res.end()\<close> (UTF-8). \<open>Send\<close>: \<^verbatim>\<open>res.status(n).send(text)\<close>.
\<close>

datatype response =
    Redirect string
  | Html string
  | Send nat string
  | NoReply

section \<open>GET /install\<close>

definition authorize_endpoint :: string where
  "authorize_endpoint = ''https://app.hubspot.com/oauth/authorize''"

definition auth_url :: "config \<Rightarrow> string" where
  "auth_url cfg =
     authorize_endpoint
     @ ''?client_id='' @ encode_uri_component (client_id cfg)
     @ ''&scope='' @ encode_uri_component (js_to_string (scopes cfg))
     @ ''&redirect_uri='' @ encode_uri_component (redirect_uri cfg)"

definition install_handler :: "config \<Rightarrow> response" where
  "install_handler cfg = Redirect (auth_url cfg)"

section \<open>GET /oauth-callback\<close>

definition auth_code_proof :: "config \<Rightarrow> jsval \<Rightarrow> exchange_proof" where
  "auth_code_proof cfg code =
     \<lparr>grant_type = ''authorization_code'', proof_client_id = client_id cfg,
      proof_client_secret = client_secret cfg, proof_redirect_uri = redirect_uri cfg,
      credential = (''code'', code)\<rparr>"

text \<open>
  Lines 58--62, after \<^verbatim>\<open>await exchangeForTokens(...)\<close>: a rejected exchange rejects
  the handler; reading \<^verbatim>\<open>token.message\<close> throws on an \<^verbatim>\<open>undefined\<close> or
  \<^verbatim>\<open>null\<close> token; a truthy message redirects to the error page with the message
  interpolated as it is; anything else redirects home.
\<close>

definition callback_finish :: "jsval completion \<Rightarrow> response completion" where
  "callback_finish tc =
     cbind tc (\<lambda>token. cbind (get_prop token ''message'') (\<lambda>m.
       if truthy m then Normal (Redirect (''/error?msg='' @ js_to_string m))
       else Normal (Redirect ''/'')))"

text \<open>
  The whole handler: when \<^verbatim>\<open>req.query.code\<close> is falsy it returns without sending a
  response; otherwise it posts the authorization-code proof, whose response \<open>r\<close>
  arrives at time \<open>now\<close>.
\<close>

definition oauth_callback ::
  "config \<Rightarrow> sid \<Rightarrow> jsval \<Rightarrow> http_result \<Rightarrow> ms \<Rightarrow> tstate \<Rightarrow> response outcome" where
  "oauth_callback cfg u code r now st =
     (if truthy code then
        (let ex = exchange_for_tokens u (auth_code_proof cfg code) r now st in
         \<lparr>result = callback_finish (result ex), ostate = ostate ex, logs = logs ex, posts = posts ex\<rparr>)
      else \<lparr>result = Normal NoReply, ostate = st, logs = [], posts = []\<rparr>)"

section \<open>GET /, GET /error, POST /webhook\<close>

definition home_title :: string where
  "home_title = ''<h2>HubSpot OAuth 2.0 Quickstart App</h2>''"

text \<open>
  The installed message as the response bytes: the source text of line 124 holds the
  characters U+221A and U+2265 where the author meant an accented letter, and
  \<^verbatim>\<open>res.write\<close> sends them UTF-8 encoded.
\<close>

definition installed_message :: string where
  "installed_message =
     ''<p>Aplicaci'' @ [CHR 0xE2, CHR 0x88, CHR 0x9A, CHR 0xE2, CHR 0x89, CHR 0xA5]
     @ ''n instalada correctamente</p>''"

definition install_link :: string where
  "install_link = ''<a href=\"/install\"><h3>Install the app</h3></a>''"

definition home_handler :: "config \<Rightarrow> sid \<Rightarrow> tstate \<Rightarrow> response outcome" where
  "home_handler cfg u st =
     (if is_authorized st u then
        \<lparr>result = Normal (Html (home_title @ installed_message)), ostate = st,
         logs = [Log (session_secret cfg)], posts = []\<rparr>
      else
        \<lparr>result = Normal (Html (home_title @ install_link)), ostate = st, logs = [], posts = []\<rparr>)"

definition error_page :: "jsval \<Rightarrow> response" where
  "error_page msg = Html (''<h4>Error: '' @ js_to_string msg @ ''</h4>'')"

text \<open>
  Lines 139--155: log the payload; when it and its \<^verbatim>\<open>eventType\<close> are truthy, log by
  event type (strict equality with the two literals); always answer 200.
\<close>

definition webhook_event_log :: "jsval \<Rightarrow> jsval \<Rightarrow> log_entry" where
  "webhook_event_log et contact =
     (if et = JStr ''contact_created'' then LogVal ''A new contact was created:'' contact
      else if et = JStr ''contact_updated'' then LogVal ''A contact was updated:'' contact
      else LogVal ''Unknown event type:'' et)"

definition webhook_handler :: "jsval \<Rightarrow> response completion \<times> log_entry list" where
  "webhook_handler payload =
     (let received = LogVal ''Received webhook payload:'' payload in
      if \<not> truthy payload then (Normal (Send 200 ''Webhook received''), [received])
      else case get_prop payload ''eventType'' of
        Throw e \<Rightarrow> (Throw e, [received])
      | Normal et \<Rightarrow>
          if \<not> truthy et then (Normal (Send 200 ''Webhook received''), [received])
          else case get_prop payload ''contact'' of
            Throw e \<Rightarrow> (Throw e, [received])
          | Normal contact \<Rightarrow>
              (Normal (Send 200 ''Webhook received''), [received, webhook_event_log et contact]))"

section \<open>Properties of the routes\<close>

lemma oauth_callback_obj_state:
  "truthy code \<Longrightarrow> ostate (oauth_callback cfg u code (Resp2xx (Json (JObj fs))) now st) =
     \<lparr>refresh_store = (refresh_store st)(u \<mapsto> obj_prop fs ''refresh_token''),
      access_cache = cache_set u (obj_prop fs ''access_token'') (ttl_seconds (obj_prop fs ''expires_in''))
        now (access_cache st)\<rparr>"
  by (simp add: oauth_callback_def exchange_obj_eq)

lemma auth_url_query:
  "query_params (auth_url cfg) =
     [(''client_id'', encode_uri_component (client_id cfg)),
      (''scope'', encode_uri_component (js_to_string (scopes cfg))),
      (''redirect_uri'', encode_uri_component (redirect_uri cfg))]"
proof -
  define e1 where "e1 = encode_uri_component (client_id cfg)"
  define e2 where "e2 = encode_uri_component (js_to_string (scopes cfg))"
  define e3 where "e3 = encode_uri_component (redirect_uri cfg)"
  have amp: "CHR ''&'' \<notin> set e1" "CHR ''&'' \<notin> set e2" "CHR ''&'' \<notin> set e3"
    unfolding e1_def e2_def e3_def by (simp_all add: encode_uri_component_no_delims)
  have eq: "CHR ''='' \<notin> set e1" "CHR ''='' \<notin> set e2" "CHR ''='' \<notin> set e3"
    unfolding e1_def e2_def e3_def by (simp_all add: encode_uri_component_no_delims)
  have nh: "CHR ''#'' \<notin> set e1" "CHR ''#'' \<notin> set e2" "CHR ''#'' \<notin> set e3"
    unfolding e1_def e2_def e3_def by (simp_all add: encode_uri_component_no_delims)
  have url: "auth_url cfg = authorize_endpoint @ CHR ''?'' #
      ((''client_id'' @ CHR ''='' # e1) @ CHR ''&'' # (''scope'' @ CHR ''='' # e2) @ CHR ''&'' # (''redirect_uri'' @ CHR ''='' # e3))"
    by (simp add: auth_url_def e1_def e2_def e3_def)
  have q: "takeWhile (\<lambda>c. c \<noteq> CHR ''#'') (drop 1 (dropWhile (\<lambda>c. c \<noteq> CHR ''?'') (auth_url cfg))) =
      (''client_id'' @ CHR ''='' # e1) @ CHR ''&'' # (''scope'' @ CHR ''='' # e2) @ CHR ''&'' # (''redirect_uri'' @ CHR ''='' # e3)"
    unfolding url using nh by (auto simp: authorize_endpoint_def takeWhile_eq_all_conv)
  have s: "split_on CHR ''&'' ((''client_id'' @ CHR ''='' # e1) @ CHR ''&'' # (''scope'' @ CHR ''='' # e2) @ CHR ''&'' # (''redirect_uri'' @ CHR ''='' # e3))
      = [''client_id'' @ CHR ''='' # e1, ''scope'' @ CHR ''='' # e2, ''redirect_uri'' @ CHR ''='' # e3]"
  proof -
    have a1: "CHR ''&'' \<notin> set (''client_id'' @ CHR ''='' # e1)" using amp by simp
    have a2: "CHR ''&'' \<notin> set (''scope'' @ CHR ''='' # e2)" using amp by simp
    have a3: "CHR ''&'' \<notin> set (''redirect_uri'' @ CHR ''='' # e3)" using amp by simp
    show ?thesis
      by (simp only: split_on_append [OF a1] split_on_append [OF a2] split_on_no_delim [OF a3])
  qed
  have p1: "query_pair (''client_id'' @ CHR ''='' # e1) = (''client_id'', e1)"
    by (rule query_pair_eq) simp
  have p2: "query_pair (''scope'' @ CHR ''='' # e2) = (''scope'', e2)"
    by (rule query_pair_eq) simp
  have p3: "query_pair (''redirect_uri'' @ CHR ''='' # e3) = (''redirect_uri'', e3)"
    by (rule query_pair_eq) simp
  show ?thesis
    unfolding e1_def [symmetric] e2_def [symmetric] e3_def [symmetric] query_params_def q s
    by (simp only: list.map p1 p2 p3)
qed

text \<open>
  C8: \<^verbatim>\<open>GET /install\<close> redirects to the provider's authorize endpoint, and a URL
  parser reading the query of that location gets back exactly the three parameters
  \<^verbatim>\<open>client_id\<close>, \<^verbatim>\<open>scope\<close> and \<^verbatim>\<open>redirect_uri\<close>, in this order, whose decoded
  values are the configured client id, the scope string and the redirect URI: the
  encoding neither loses nor splits any of them.
\<close>

theorem install_handler_query:
  "\<exists>url. install_handler cfg = Redirect url
     \<and> take (length authorize_endpoint + 1) url = authorize_endpoint @ ''?''
     \<and> map (\<lambda>(k, v). (k, uri_decode v)) (query_params url) =
         [(''client_id'', Some (client_id cfg)), (''scope'', Some (js_to_string (scopes cfg))),
          (''redirect_uri'', Some (redirect_uri cfg))]"
  by (simp add: install_handler_def auth_url_query uri_decode_encode)
     (simp add: auth_url_def authorize_endpoint_def)


lemma callback_finish_not_noreply: "callback_finish tc \<noteq> Normal NoReply"
  by (auto simp: callback_finish_def cbind_Normal_iff)




text \<open>
  C11: the callback finishes without sending any response exactly when the query has no
  truthy \<^verbatim>\<open>code\<close>: the request is left hanging.
\<close>

theorem oauth_callback_no_reply:
  "result (oauth_callback cfg u code r now st) = Normal NoReply \<longleftrightarrow> \<not> truthy code"
  by (simp add: oauth_callback_def Let_def callback_finish_not_noreply)

text \<open>
  C12: with a truthy code, a failed POST (no response), an unparseable or a
  \<^verbatim>\<open>null\<close> 2xx body makes the handler's promise reject with a TypeError: no response
  is sent and the stores are unchanged.
\<close>

theorem oauth_callback_transport_failure:
  assumes "truthy code" and "r \<in> {RespNone, Resp2xx Unparseable, Resp2xx (Json JNull)}"
  shows "oauth_callback cfg u code r now st =
     \<lparr>result = Throw TypeError, ostate = st, logs = [exchange_error_log (auth_code_proof cfg code)],
      posts = [auth_code_proof cfg code]\<rparr>"
  using assms exchange_reject_eq [of r u "auth_code_proof cfg code" now st]
  by (auto simp: oauth_callback_def callback_finish_def)

text \<open>
  C13: a 2xx token object without an access token still overwrites the session's refresh
  token, and then the handler's promise rejects with a TypeError (reading
  \<^verbatim>\<open>token.message\<close> of \<^verbatim>\<open>undefined\<close>), so no response is sent.
\<close>

theorem oauth_callback_no_access_token:
  assumes "truthy code" and "obj_prop fs ''access_token'' \<in> {JUndef, JNull}"
  shows "result (oauth_callback cfg u code (Resp2xx (Json (JObj fs))) now st) = Throw TypeError
    \<and> refresh_store (ostate (oauth_callback cfg u code (Resp2xx (Json (JObj fs))) now st)) =
        (refresh_store st)(u \<mapsto> obj_prop fs ''refresh_token'')"
  using assms by (auto simp: oauth_callback_def exchange_obj_eq callback_finish_def)

text \<open>
  C14: \<^verbatim>\<open>POST /webhook\<close> never rejects: whatever the body, it answers 200 with
  \<^verbatim>\<open>Webhook received\<close>.
\<close>

theorem webhook_acknowledged: "fst (webhook_handler payload) = Normal (Send 200 ''Webhook received'')"
  by (auto simp: webhook_handler_def Let_def get_prop_Throw_iff split: completion.split)

text \<open>
  C15: for an object body, the webhook logs the payload and, when \<^verbatim>\<open>eventType\<close> is
  truthy, one line chosen by strict equality of the event type with
  \<^verbatim>\<open>contact_created\<close> or \<^verbatim>\<open>contact_updated\<close> (with the contact) or the
  unknown-event line (with the event type).
\<close>

theorem webhook_object_logs:
  "snd (webhook_handler (JObj fs)) =
     LogVal ''Received webhook payload:'' (JObj fs)
     # (if \<not> truthy (obj_prop fs ''eventType'') then []
        else if obj_prop fs ''eventType'' = JStr ''contact_created''
        then [LogVal ''A new contact was created:'' (obj_prop fs ''contact'')]
        else if obj_prop fs ''eventType'' = JStr ''contact_updated''
        then [LogVal ''A contact was updated:'' (obj_prop fs ''contact'')]
        else [LogVal ''Unknown event type:'' (obj_prop fs ''eventType'')])"
  by (simp add: webhook_handler_def webhook_event_log_def Let_def)


theorem oauth_callback_no_reply_witness:
  "result (oauth_callback demo_config ''s'' JUndef RespNone 0 init_tstate) = Normal NoReply"
  using oauth_callback_no_reply [of demo_config "''s''" JUndef RespNone 0 init_tstate] by simp

theorem oauth_callback_transport_failure_witness:
  "oauth_callback demo_config ''s'' (JStr ''abc'') RespNone 0 init_tstate =
     \<lparr>result = Throw TypeError, ostate = init_tstate,
      logs = [exchange_error_log (auth_code_proof demo_config (JStr ''abc''))],
      posts = [auth_code_proof demo_config (JStr ''abc'')]\<rparr>"
  using oauth_callback_transport_failure [of "JStr ''abc''" RespNone demo_config "''s''" 0 init_tstate]
  by simp

theorem oauth_callback_no_access_token_witness:
  "result (oauth_callback demo_config ''s'' (JStr ''abc'') (Resp2xx (Json (JObj [(''refresh_token'', JStr ''r'')])))
      0 init_tstate) = Throw TypeError
   \<and> refresh_store (ostate (oauth_callback demo_config ''s'' (JStr ''abc'')
         (Resp2xx (Json (JObj [(''refresh_token'', JStr ''r'')]))) 0 init_tstate)) = [''s'' \<mapsto> JStr ''r'']"
  using oauth_callback_no_access_token [of "JStr ''abc''" "[(''refresh_token'', JStr ''r'')]" demo_config
      "''s''" 0 init_tstate]
  by (simp add: obj_prop_def init_tstate_def)

theorem webhook_object_logs_witness:
  "snd (webhook_handler (JObj [(''eventType'', JStr ''contact_created''), (''contact'', JObj [(''id'', JNum 1)])])) =
     [LogVal ''Received webhook payload:''
        (JObj [(''eventType'', JStr ''contact_created''), (''contact'', JObj [(''id'', JNum 1)])]),
      LogVal ''A new contact was created:'' (JObj [(''id'', JNum 1)])]"
  using webhook_object_logs [of "[(''eventType'', JStr ''contact_created''), (''contact'', JObj [(''id'', JNum 1)])]"]
  by (simp add: obj_prop_def)

text \<open>
  C30: the error message is put into the redirect URL without
  \<^verbatim>\<open>encodeURIComponent\<close> (line 59). For a message \<open>a & b\<close> of unreserved
  characters (so that no other decoding step applies), the query of the location
  decodes to the two parameters \<^verbatim>\<open>msg = a\<close> and \<^verbatim>\<open>b\<close> with an empty value:
  \<^verbatim>\<open>/error\<close> receives the message cut at its \<^verbatim>\<open>&\<close>.
\<close>

theorem error_message_truncated:
  assumes "truthy code" and "obj_prop fs ''message'' = JStr (a @ CHR ''&'' # b)"
    and "set a \<subseteq> set uri_unreserved" and "set b \<subseteq> set uri_unreserved"
  shows "\<exists>url. result (oauth_callback cfg u code (RespStatus (Json (JObj fs))) now st) = Normal (Redirect url)
    \<and> map (\<lambda>(k, v). (k, uri_decode v)) (query_params url) = [(''msg'', Some a), (b, Some [])]"
proof -
  have na: "\<forall>c \<in> set a. c \<noteq> CHR ''&'' \<and> c \<noteq> CHR ''='' \<and> c \<noteq> CHR ''#'' \<and> c \<noteq> CHR ''?''"
    and nb: "\<forall>c \<in> set b. c \<noteq> CHR ''&'' \<and> c \<noteq> CHR ''='' \<and> c \<noteq> CHR ''#'' \<and> c \<noteq> CHR ''?''"
    using assms(3,4) unreserved_no_delims by blast+
  have amp: "CHR ''&'' \<notin> set (''msg'' @ CHR ''='' # a)" "CHR ''&'' \<notin> set b" using na nb by auto
  have d1: "drop 1 (dropWhile (\<lambda>c. c \<noteq> CHR ''?'') (''/error?msg='' @ a @ CHR ''&'' # b)) =
      (''msg'' @ CHR ''='' # a) @ CHR ''&'' # b"
    by simp
  have tw: "takeWhile (\<lambda>c. c \<noteq> CHR ''#'') ((''msg'' @ CHR ''='' # a) @ CHR ''&'' # b) =
      (''msg'' @ CHR ''='' # a) @ CHR ''&'' # b"
    using na nb by (auto simp: takeWhile_eq_all_conv)
  have sp: "split_on CHR ''&'' ((''msg'' @ CHR ''='' # a) @ CHR ''&'' # b) = [''msg'' @ CHR ''='' # a, b]"
    by (simp only: split_on_append [OF amp(1)] split_on_no_delim [OF amp(2)])
  have p1: "query_pair (''msg'' @ CHR ''='' # a) = (''msg'', a)" by (rule query_pair_eq) simp
  have p2: "query_pair b = (b, [])" by (rule query_pair_no_eq) (use nb in auto)
  have q: "query_params (''/error?msg='' @ a @ CHR ''&'' # b) = [(''msg'', a), (b, [])]"
    unfolding query_params_def d1 tw sp by (simp only: list.map p1 p2)
  have d: "uri_decode a = Some a" "uri_decode b = Some b"
    using assms(3,4) by (simp_all add: uri_decode_unreserved)
  show ?thesis
    using assms(1,2) q d by (simp add: oauth_callback_def exchange_status_eq callback_finish_def)
qed

theorem error_message_truncated_witness:
  "\<exists>url. result (oauth_callback demo_config ''s'' (JStr ''abc'')
      (RespStatus (Json (JObj [(''message'', JStr ''bad&retry'')]))) 0 init_tstate) = Normal (Redirect url)
    \<and> map (\<lambda>(k, v). (k, uri_decode v)) (query_params url) = [(''msg'', Some ''bad''), (''retry'', Some [])]"
  using error_message_truncated [of "JStr ''abc''" "[(''message'', JStr ''bad&retry'')]" "''bad''" "''retry''"
      demo_config "''s''" 0 init_tstate]
  by (simp add: obj_prop_def uri_unreserved_def)

end
