(* ===== verification/Server.thy ===== *)
theory Server
  imports Routes
begin

text \<open>
  The server as a whole: the token stores shared by every request handler of
  \<^verbatim>\<open>src/index.js\<close>, the handlers suspended at \<^verbatim>\<open>await request.post(...)\<close>, and
  the clock. Node runs one handler at a time and switches only at an \<^verbatim>\<open>await\<close>, so
  a handler's code between two suspension points is one atomic step; the only
  suspension point that crosses I/O is the token POST, in \<^verbatim>\<open>/oauth-callback\<close>
  (line 57) and in \<^verbatim>\<open>getAccessToken\<close> (line 95). The steps are: a request that
  runs to completion or to its POST; a call of \<^verbatim>\<open>getAccessToken\<close>, which no route
  makes but which the specification describes as the way access tokens are obtained;
  the arrival of the response of any pending POST, in any order; the clock advancing; and
  node-cache's check-period timer. The ghost field \<open>granted\<close> records, in order, every
  refresh token an exchange wrote to the store.
\<close>

section \<open>State and steps\<close>

datatype task = CallbackTask sid exchange_proof | RefreshTask sid exchange_proof

record server =
  toks :: tstate
  clock :: ms
  tasks :: "task list"
  replies :: "(sid \<times> response completion) list"
  returned :: "(sid \<times> jsval completion) list"
  out :: "log_entry list"
  sent :: "exchange_proof list"
  granted :: "(sid \<times> jsval) list"

definition init_server :: "ms \<Rightarrow> server" where
  "init_server t0 =
     \<lparr>toks = init_tstate, clock = t0, tasks = [], replies = [], returned = [], out = [],
      sent = [], granted = []\<rparr>"

fun task_sid :: "task \<Rightarrow> sid" where
  "task_sid (CallbackTask u p) = u"
| "task_sid (RefreshTask u p) = u"

text \<open>The refresh token an exchange writes to the store for a response, if any.\<close>

definition granted_refresh :: "http_result \<Rightarrow> jsval option" where
  "granted_refresh r =
     (case r of
        Resp2xx (Json v) \<Rightarrow> (case get_prop v ''refresh_token'' of Normal rt \<Rightarrow> Some rt | Throw e \<Rightarrow> None)
      | _ \<Rightarrow> None)"

text \<open>
  A request, run until it sends its response or reaches the token POST. The callback
  with a truthy code posts its proof and suspends; without one it finishes without
  replying (\<open>NoReply\<close>).
\<close>

definition serve_request :: "config \<Rightarrow> sid \<Rightarrow> request \<Rightarrow> server \<Rightarrow> server" where
  "serve_request cfg u req s =
     (case req of
        Install \<Rightarrow> s\<lparr>replies := replies s @ [(u, Normal (install_handler cfg))]\<rparr>
      | OAuthCallback code \<Rightarrow>
          if truthy code then
            s\<lparr>tasks := tasks s @ [CallbackTask u (auth_code_proof cfg code)],
              sent := sent s @ [auth_code_proof cfg code]\<rparr>
          else s\<lparr>replies := replies s @ [(u, Normal NoReply)]\<rparr>
      | Home \<Rightarrow>
          (let h = home_handler cfg u (toks s) in
           s\<lparr>replies := replies s @ [(u, result h)], out := out s @ logs h\<rparr>)
      | ErrorPage m \<Rightarrow> s\<lparr>replies := replies s @ [(u, Normal (error_page m))]\<rparr>
      | Webhook p \<Rightarrow>
          (let (res, l) = webhook_handler p in
           s\<lparr>replies := replies s @ [(u, res)], out := out s @ l\<rparr>))"

text \<open>
  A call of \<^verbatim>\<open>getAccessToken(u)\<close> up to its POST: the first \<^verbatim>\<open>get\<close>; on a falsy
  value the log line and the refresh POST, with the refresh token read now; on a truthy
  one the second \<^verbatim>\<open>get\<close> and the return.
\<close>

definition start_gat :: "config \<Rightarrow> sid \<Rightarrow> server \<Rightarrow> server" where
  "start_gat cfg u s =
     (let (v1, c1) = cache_get u (clock s) (access_cache (toks s));
          st1 = (toks s)\<lparr>access_cache := c1\<rparr>
      in if \<not> truthy v1 then
           s\<lparr>toks := st1, tasks := tasks s @ [RefreshTask u (refresh_proof cfg u st1)],
             sent := sent s @ [refresh_proof cfg u st1], out := out s @ [refreshing_log]\<rparr>
         else
           (let (v2, c2) = cache_get u (clock s) c1 in
            s\<lparr>toks := st1\<lparr>access_cache := c2\<rparr>, returned := returned s @ [(u, Normal v2)]\<rparr>))"

definition remove_nth :: "nat \<Rightarrow> 'a list \<Rightarrow> 'a list" where
  "remove_nth i xs = take i xs @ drop (Suc i) xs"

text \<open>
  The response \<open>r\<close> of the \<open>i\<close>-th pending POST arrives now: the suspended handler
  resumes and runs to its end.
\<close>

definition resolve :: "config \<Rightarrow> nat \<Rightarrow> http_result \<Rightarrow> server \<Rightarrow> server" where
  "resolve cfg i r s =
     (let g = (case granted_refresh r of Some rt \<Rightarrow> [(task_sid (tasks s ! i), rt)] | None \<Rightarrow> []);
          s1 = s\<lparr>tasks := remove_nth i (tasks s), granted := granted s @ g\<rparr>
      in case tasks s ! i of
           CallbackTask u p \<Rightarrow>
             (let ex = exchange_for_tokens u p r (clock s) (toks s) in
              s1\<lparr>toks := ostate ex, replies := replies s @ [(u, callback_finish (result ex))],
                 out := out s @ logs ex\<rparr>)
         | RefreshTask u p \<Rightarrow>
             (let ex = refresh_continue u (exchange_for_tokens u p r (clock s) (toks s)) (clock s) in
              s1\<lparr>toks := ostate ex, returned := returned s @ [(u, result ex)], out := out s @ logs ex\<rparr>))"

definition expire_step :: "server \<Rightarrow> server" where
  "expire_step s = s\<lparr>toks := (toks s)\<lparr>access_cache := cache_check_data (clock s) (access_cache (toks s))\<rparr>\<rparr>"

inductive srv_step :: "config \<Rightarrow> server \<Rightarrow> server \<Rightarrow> bool" for cfg where
  tick: "clock s \<le> t \<Longrightarrow> srv_step cfg s (s\<lparr>clock := t\<rparr>)"
| expire: "srv_step cfg s (expire_step s)"
| request: "srv_step cfg s (serve_request cfg u req s)"
| call_gat: "srv_step cfg s (start_gat cfg u s)"
| respond: "i < length (tasks s) \<Longrightarrow> srv_step cfg s (resolve cfg i r s)"

inductive reach :: "config \<Rightarrow> server \<Rightarrow> bool" for cfg where
  init: "0 \<le> t0 \<Longrightarrow> reach cfg (init_server t0)"
| step: "reach cfg s \<Longrightarrow> srv_step cfg s s' \<Longrightarrow> reach cfg s'"

text \<open>The store the ghost history predicts: the last refresh token written per session.\<close>

definition grants_map :: "(sid \<times> jsval) list \<Rightarrow> sid \<rightharpoonup> jsval" where
  "grants_map g = fold (\<lambda>(u, rt) m. m(u \<mapsto> rt)) g Map.empty"

text \<open>The invariant kept by every step.\<close>

definition srv_inv :: "server \<Rightarrow> bool" where
  "srv_inv s \<longleftrightarrow>
     dom (access_cache (toks s)) \<subseteq> dom (refresh_store (toks s))
     \<and> refresh_store (toks s) = grants_map (granted s)
     \<and> 0 \<le> clock s"

text \<open>Token responses used by the witnesses.\<close>

definition demo_tokens :: http_result where
  "demo_tokens = Resp2xx (Json (JObj [(''access_token'', JStr ''t''), (''refresh_token'', JStr ''r''),
                                      (''expires_in'', JNum 3600)]))"

section \<open>Invariants and properties\<close>

lemma grants_map_snoc [simp]: "grants_map (g @ [(u, rt)]) = (grants_map g)(u \<mapsto> rt)"
  by (simp add: grants_map_def)

lemma grants_map_Nil [simp]: "grants_map [] = Map.empty"
  by (simp add: grants_map_def)

lemma exchange_store:
  "refresh_store (ostate (exchange_for_tokens u p r now st)) =
     (case granted_refresh r of Some rt \<Rightarrow> (refresh_store st)(u \<mapsto> rt) | None \<Rightarrow> refresh_store st)"
  by (auto simp: exchange_for_tokens_def exchange_try_def store_tokens_def granted_refresh_def
      Let_def split: http_result.split body.split completion.split prod.split)

lemma exchange_dom:
  "dom (access_cache st) \<subseteq> dom (refresh_store st) \<Longrightarrow>
   dom (access_cache (ostate (exchange_for_tokens u p r now st))) \<subseteq>
   dom (refresh_store (ostate (exchange_for_tokens u p r now st)))"
  by (auto simp: exchange_for_tokens_def exchange_try_def store_tokens_def cache_set_def
      Let_def split: http_result.split body.split completion.split prod.split)

lemma refresh_continue_store [simp]:
  "refresh_store (ostate (refresh_continue u o1 t)) = refresh_store (ostate o1)"
  by (simp add: refresh_continue_def split: completion.split prod.split)

lemma refresh_continue_dom:
  "dom (access_cache (ostate (refresh_continue u o1 t))) \<subseteq> dom (access_cache (ostate o1))"
proof (cases "result o1")
  case (Normal x)
  obtain v c where g: "cache_get u t (access_cache (ostate o1)) = (v, c)" by force
  with cache_get_dom [of u t "access_cache (ostate o1)"] have "dom c \<subseteq> dom (access_cache (ostate o1))"
    by simp
  with Normal g show ?thesis by (simp add: refresh_continue_def)
qed (simp add: refresh_continue_def)

lemma cache_check_data_dom: "dom (cache_check_data now c) \<subseteq> dom c"
  by (auto simp: cache_check_data_def split: option.splits if_splits)

lemma srv_invD:
  assumes "srv_inv s"
  shows "dom (access_cache (toks s)) \<subseteq> dom (refresh_store (toks s))"
    and "refresh_store (toks s) = grants_map (granted s)" and "0 \<le> clock s"
  using assms unfolding srv_inv_def by blast+

lemma srv_invI:
  "dom (access_cache (toks s)) \<subseteq> dom (refresh_store (toks s)) \<Longrightarrow>
   refresh_store (toks s) = grants_map (granted s) \<Longrightarrow> 0 \<le> clock s \<Longrightarrow> srv_inv s"
  by (simp add: srv_inv_def)

lemma serve_request_frame:
  "toks (serve_request cfg u req s) = toks s \<and> granted (serve_request cfg u req s) = granted s
   \<and> clock (serve_request cfg u req s) = clock s"
  by (cases req) (simp_all add: serve_request_def Let_def split: prod.split)

lemma start_gat_frame:
  "refresh_store (toks (start_gat cfg u s)) = refresh_store (toks s)
   \<and> dom (access_cache (toks (start_gat cfg u s))) \<subseteq> dom (access_cache (toks s))
   \<and> granted (start_gat cfg u s) = granted s \<and> clock (start_gat cfg u s) = clock s"
proof -
  obtain v1 c1 where g1: "cache_get u (clock s) (access_cache (toks s)) = (v1, c1)" by force
  obtain v2 c2 where g2: "cache_get u (clock s) c1 = (v2, c2)" by force
  have d1: "dom c1 \<subseteq> dom (access_cache (toks s))"
    using cache_get_dom [of u "clock s" "access_cache (toks s)"] g1 by simp
  have d2: "dom c2 \<subseteq> dom c1"
    using cache_get_dom [of u "clock s" c1] g2 by simp
  have "dom c2 \<subseteq> dom (access_cache (toks s))" using d1 d2 by (rule order_trans [rotated])
  with d1 show ?thesis by (simp add: start_gat_def g1 g2 Let_def)
qed

lemma resolve_fields:
  "clock (resolve cfg i r s) = clock s"
  "granted (resolve cfg i r s) =
     granted s @ (case granted_refresh r of Some rt \<Rightarrow> [(task_sid (tasks s ! i), rt)] | None \<Rightarrow> [])"
  "toks (resolve cfg i r s) =
     (case tasks s ! i of
        CallbackTask u p \<Rightarrow> ostate (exchange_for_tokens u p r (clock s) (toks s))
      | RefreshTask u p \<Rightarrow> ostate (refresh_continue u (exchange_for_tokens u p r (clock s) (toks s)) (clock s)))"
  by (simp_all add: resolve_def Let_def split: task.split)

lemma resolve_inv:
  assumes inv: "srv_inv s"
  shows "srv_inv (resolve cfg i r s)"
proof -
  obtain u p where t: "tasks s ! i = CallbackTask u p \<or> tasks s ! i = RefreshTask u p"
    by (cases "tasks s ! i") auto
  let ?ex = "exchange_for_tokens u p r (clock s) (toks s)"
  have sid: "task_sid (tasks s ! i) = u" using t by auto
  have d: "dom (access_cache (ostate ?ex)) \<subseteq> dom (refresh_store (ostate ?ex))"
    by (rule exchange_dom [OF srv_invD(1) [OF inv]])
  have dc: "dom (access_cache (ostate (refresh_continue u ?ex (clock s)))) \<subseteq> dom (refresh_store (ostate ?ex))"
    using refresh_continue_dom [of u ?ex "clock s"] d by (rule order_trans)
  have g: "refresh_store (ostate ?ex) = grants_map (granted (resolve cfg i r s))"
    using srv_invD(2) [OF inv] sid by (simp add: resolve_fields exchange_store split: option.split)
  show ?thesis
  proof (rule srv_invI)
    show "0 \<le> clock (resolve cfg i r s)" using srv_invD(3) [OF inv] by (simp add: resolve_fields)
    show "dom (access_cache (toks (resolve cfg i r s))) \<subseteq> dom (refresh_store (toks (resolve cfg i r s)))"
      using t
    proof
      assume "tasks s ! i = CallbackTask u p"
      then show ?thesis by (simp add: resolve_fields d)
    next
      assume "tasks s ! i = RefreshTask u p"
      then show ?thesis by (simp add: resolve_fields dc)
    qed
    show "refresh_store (toks (resolve cfg i r s)) = grants_map (granted (resolve cfg i r s))"
      using t g by (auto simp: resolve_fields)
  qed
qed

lemma srv_step_inv: "srv_step cfg s s' \<Longrightarrow> srv_inv s \<Longrightarrow> srv_inv s'"
proof (induction rule: srv_step.induct)
  case (tick s t)
  then show ?case using srv_invD [OF tick.prems] by (intro srv_invI) simp_all
next
  case (expire s)
  have "dom (cache_check_data (clock s) (access_cache (toks s))) \<subseteq> dom (refresh_store (toks s))"
    using cache_check_data_dom srv_invD(1) [OF expire.prems] by (rule order_trans)
  then show ?case using srv_invD [OF expire.prems] by (intro srv_invI) (simp_all add: expire_step_def)
next
  case (request s u req)
  then show ?case using srv_invD [OF request.prems] serve_request_frame [of cfg u req s]
    by (intro srv_invI) simp_all
next
  case (call_gat s u)
  have f: "refresh_store (toks (start_gat cfg u s)) = refresh_store (toks s)"
    "dom (access_cache (toks (start_gat cfg u s))) \<subseteq> dom (access_cache (toks s))"
    "granted (start_gat cfg u s) = granted s" "clock (start_gat cfg u s) = clock s"
    using start_gat_frame [of cfg u s] by simp_all
  show ?case
    using srv_invD [OF call_gat.prems] f order_trans [OF f(2)] by (intro srv_invI) simp_all
next
  case (respond i s r)
  show ?case by (rule resolve_inv [OF respond.prems])
qed

lemma reach_inv: "reach cfg s \<Longrightarrow> srv_inv s"
proof (induction rule: reach.induct)
  case (init t0)
  then show ?case by (simp add: srv_inv_def init_server_def init_tstate_def)
next
  case (step s s')
  then show ?case by (blast intro: srv_step_inv)
qed


lemma reach_request: "reach cfg s \<Longrightarrow> reach cfg (serve_request cfg u req s)"
  by (blast intro: reach.step srv_step.request)

lemma reach_resolve: "reach cfg s \<Longrightarrow> i < length (tasks s) \<Longrightarrow> reach cfg (resolve cfg i r s)"
  by (blast intro: reach.step srv_step.respond)

lemma reach_start_gat: "reach cfg s \<Longrightarrow> reach cfg (start_gat cfg u s)"
  by (blast intro: reach.step srv_step.call_gat)

lemma demo_authorized_reach:
  "reach demo_config
     (resolve demo_config 0 demo_tokens
        (serve_request demo_config ''s'' (OAuthCallback (JStr ''abc'')) (init_server 0)))"
  by (rule reach_resolve [OF reach_request [OF reach.init]])
     (simp_all add: serve_request_def init_server_def)

text \<open>
  C16: in every reachable state, every session with an access-token cache entry also has
  a key in the refresh-token store (the data-model invariant of the specification, in the
  key sense: the stored value may be \<^verbatim>\<open>undefined\<close>).
\<close>

theorem reach_cache_subset_store:
  "reach cfg s \<Longrightarrow> dom (access_cache (toks s)) \<subseteq> dom (refresh_store (toks s))"
  by (rule srv_invD(1) [OF reach_inv])

theorem reach_cache_subset_store_witness:
  "dom (access_cache (toks (resolve demo_config 0 demo_tokens
      (serve_request demo_config ''s'' (OAuthCallback (JStr ''abc'')) (init_server 0)))))
   \<subseteq> dom (refresh_store (toks (resolve demo_config 0 demo_tokens
      (serve_request demo_config ''s'' (OAuthCallback (JStr ''abc'')) (init_server 0)))))
   \<and> ''s'' \<in> dom (access_cache (toks (resolve demo_config 0 demo_tokens
      (serve_request demo_config ''s'' (OAuthCallback (JStr ''abc'')) (init_server 0)))))"
  using reach_cache_subset_store [OF demo_authorized_reach]
  by (simp add: resolve_def serve_request_def init_server_def init_tstate_def demo_tokens_def
      exchange_obj_eq remove_nth_def cache_set_def)

text \<open>
  C17: in every reachable state, \<^verbatim>\<open>isAuthorized(u)\<close> holds exactly when the most
  recent exchange for \<open>u\<close> that wrote the store wrote a truthy refresh token; not, as the
  specification says, whenever some exchange for \<open>u\<close> has succeeded.
\<close>

theorem reach_is_authorized_history:
  assumes "reach cfg s"
  shows "is_authorized (toks s) u \<longleftrightarrow> (\<exists>rt. grants_map (granted s) u = Some rt \<and> truthy rt)"
  using srv_invD(2) [OF reach_inv [OF assms]]
  by (auto simp: is_authorized_def store_read_def split: option.split)


theorem reach_is_authorized_history_witness:
  "is_authorized (toks (resolve demo_config 0 demo_tokens
      (serve_request demo_config ''s'' (OAuthCallback (JStr ''abc'')) (init_server 0)))) ''s''
   \<longleftrightarrow> (\<exists>rt. grants_map (granted (resolve demo_config 0 demo_tokens
      (serve_request demo_config ''s'' (OAuthCallback (JStr ''abc'')) (init_server 0)))) ''s'' = Some rt
        \<and> truthy rt)"
  by (rule reach_is_authorized_history [OF demo_authorized_reach])

text \<open>
  C18: authorization is not monotone. From any reachable state, when a pending exchange
  of session \<open>u\<close> (a callback or a refresh) completes with a 2xx token object whose
  \<^verbatim>\<open>refresh_token\<close> is missing or falsy, the resulting state is reachable and
  \<open>u\<close> is unauthorized, whether or not it was authorized before. The specification's
  state machine leaves Authorized only by a process restart.
\<close>

theorem authorization_not_monotone:
  assumes "reach cfg s" and "i < length (tasks s)" and "task_sid (tasks s ! i) = u"
    and "\<not> truthy (obj_prop fs ''refresh_token'')"
  shows "reach cfg (resolve cfg i (Resp2xx (Json (JObj fs))) s)
    \<and> \<not> is_authorized (toks (resolve cfg i (Resp2xx (Json (JObj fs))) s)) u"
proof -
  have g: "granted_refresh (Resp2xx (Json (JObj fs))) = Some (obj_prop fs ''refresh_token'')"
    by (simp add: granted_refresh_def)
  obtain p where t: "tasks s ! i = CallbackTask u p \<or> tasks s ! i = RefreshTask u p"
    using assms(3) by (cases "tasks s ! i") auto
  have "refresh_store (toks (resolve cfg i (Resp2xx (Json (JObj fs))) s)) u = Some (obj_prop fs ''refresh_token'')"
    using t by (auto simp: resolve_fields exchange_store g)
  then show ?thesis
    using reach_resolve [OF assms(1,2)] assms(4) by (simp add: is_authorized_def store_read_def)
qed

theorem authorization_not_monotone_witness:
  "is_authorized (toks (serve_request demo_config ''s'' (OAuthCallback (JStr ''def''))
      (resolve demo_config 0 demo_tokens
        (serve_request demo_config ''s'' (OAuthCallback (JStr ''abc'')) (init_server 0))))) ''s''
   \<and> \<not> is_authorized (toks (resolve demo_config 0 (Resp2xx (Json (JObj [(''access_token'', JStr ''t2''), (''expires_in'', JNum 3600)])))
      (serve_request demo_config ''s'' (OAuthCallback (JStr ''def''))
        (resolve demo_config 0 demo_tokens
          (serve_request demo_config ''s'' (OAuthCallback (JStr ''abc'')) (init_server 0)))))) ''s''"
proof -
  let ?s1 = "resolve demo_config 0 demo_tokens
               (serve_request demo_config ''s'' (OAuthCallback (JStr ''abc'')) (init_server 0))"
  let ?s2 = "serve_request demo_config ''s'' (OAuthCallback (JStr ''def'')) ?s1"
  have r2: "reach demo_config ?s2" by (rule reach_request [OF demo_authorized_reach])
  have len: "0 < length (tasks ?s2)" and sid: "task_sid (tasks ?s2 ! 0) = ''s''"
    by (simp_all add: serve_request_def resolve_def init_server_def remove_nth_def Let_def)
  have a2: "is_authorized (toks ?s2) ''s''"
    by (simp add: serve_request_def resolve_def init_server_def init_tstate_def demo_tokens_def
        exchange_obj_eq is_authorized_def store_read_def obj_prop_def)
  show ?thesis
    using authorization_not_monotone [OF r2 len sid, of "[(''access_token'', JStr ''t2''), (''expires_in'', JNum 3600)]"]
      a2 by (simp add: obj_prop_def)
qed

lemma start_gat_miss:
  assumes "\<not> truthy (cache_peek u (clock s) (access_cache (toks s)))"
  shows "tasks (start_gat cfg u s) = tasks s @ [RefreshTask u (refresh_proof cfg u (toks s))]
    \<and> sent (start_gat cfg u s) = sent s @ [refresh_proof cfg u (toks s)]
    \<and> clock (start_gat cfg u s) = clock s
    \<and> \<not> truthy (cache_peek u (clock s) (access_cache (toks (start_gat cfg u s))))"
proof -
  obtain v1 c1 where g: "cache_get u (clock s) (access_cache (toks s)) = (v1, c1)" by force
  have v1: "v1 = cache_peek u (clock s) (access_cache (toks s))"
    using g by (metis fst_cache_get fst_conv)
  have c1: "cache_peek u (clock s) c1 = cache_peek u (clock s) (access_cache (toks s))"
    using cache_get_keeps_peek [of "clock s" "clock s" u u "access_cache (toks s)"] g by simp
  show ?thesis using assms v1 c1 by (simp add: start_gat_def g Let_def)
qed

text \<open>
  C19: concurrent \<^verbatim>\<open>getAccessToken\<close> calls for one session are not coalesced: from
  any reachable state whose cached token is missing or stale, two calls both post a
  refresh request with the same refresh token, and both remain pending together.
\<close>

theorem concurrent_refresh_not_coalesced:
  assumes "reach cfg s" and "\<not> truthy (cache_peek u (clock s) (access_cache (toks s)))"
  shows "reach cfg (start_gat cfg u (start_gat cfg u s))
    \<and> tasks (start_gat cfg u (start_gat cfg u s)) =
        tasks s @ [RefreshTask u (refresh_proof cfg u (toks s)), RefreshTask u (refresh_proof cfg u (toks s))]
    \<and> sent (start_gat cfg u (start_gat cfg u s)) =
        sent s @ [refresh_proof cfg u (toks s), refresh_proof cfg u (toks s)]"
proof -
  let ?s1 = "start_gat cfg u s"
  have m1: "tasks ?s1 = tasks s @ [RefreshTask u (refresh_proof cfg u (toks s))]"
    "sent ?s1 = sent s @ [refresh_proof cfg u (toks s)]" "clock ?s1 = clock s"
    "\<not> truthy (cache_peek u (clock ?s1) (access_cache (toks ?s1)))"
    using start_gat_miss [OF assms(2), of cfg] by simp_all
  have p: "refresh_proof cfg u (toks ?s1) = refresh_proof cfg u (toks s)"
    using start_gat_frame [of cfg u s] by (simp add: refresh_proof_def store_read_def)
  have m2: "tasks (start_gat cfg u ?s1) = tasks ?s1 @ [RefreshTask u (refresh_proof cfg u (toks ?s1))]"
    "sent (start_gat cfg u ?s1) = sent ?s1 @ [refresh_proof cfg u (toks ?s1)]"
    using start_gat_miss [OF m1(4), of cfg] by simp_all
  show ?thesis
    using reach_start_gat [OF reach_start_gat [OF assms(1)]] m1 m2 p by simp
qed

theorem concurrent_refresh_not_coalesced_witness:
  "reach demo_config (start_gat demo_config ''s'' (start_gat demo_config ''s'' (init_server 0)))
   \<and> tasks (start_gat demo_config ''s'' (start_gat demo_config ''s'' (init_server 0))) =
       [RefreshTask ''s'' (refresh_proof demo_config ''s'' init_tstate),
        RefreshTask ''s'' (refresh_proof demo_config ''s'' init_tstate)]
   \<and> sent (start_gat demo_config ''s'' (start_gat demo_config ''s'' (init_server 0))) =
       [refresh_proof demo_config ''s'' init_tstate, refresh_proof demo_config ''s'' init_tstate]"
  using concurrent_refresh_not_coalesced [OF reach.init [of 0], of "''s''" demo_config]
  by (simp add: init_server_def init_tstate_def cache_peek_def)

text \<open>
  C20: last write wins: whichever pending exchange of a session completes, with a token
  object of positive TTL, its access token is what the cache then returns for the
  session and its refresh token is what the store holds, whatever order the requests
  were issued in.
\<close>

theorem resolve_overwrites_cache:
  assumes "reach cfg s" and "i < length (tasks s)" and "task_sid (tasks s ! i) = u"
    and "ttl_seconds (obj_prop fs ''expires_in'') = Some k" and "0 < k"
  shows "cache_peek u (clock s) (access_cache (toks (resolve cfg i (Resp2xx (Json (JObj fs))) s)))
           = obj_prop fs ''access_token''
       \<and> refresh_store (toks (resolve cfg i (Resp2xx (Json (JObj fs))) s)) u
           = Some (obj_prop fs ''refresh_token'')"
proof -
  have c: "0 \<le> clock s" by (rule srv_invD(3) [OF reach_inv [OF assms(1)]])
  let ?e = "\<lparr>cval = obj_prop fs ''access_token'', ct = clock s + k * 1000\<rparr>"
  have fresh: "\<not> stale ?e (clock s)" using c assms(5) by (simp add: stale_def)
  have lt: "livetime (Some k) (clock s) = clock s + k * 1000" using c assms(5) by (simp add: livetime_def)
  obtain p where t: "tasks s ! i = CallbackTask u p \<or> tasks s ! i = RefreshTask u p"
    using assms(3) by (cases "tasks s ! i") auto
  then show ?thesis
  proof
    assume "tasks s ! i = CallbackTask u p"
    then show ?thesis
      using fresh lt assms(4)
      by (simp add: resolve_fields exchange_obj_eq cache_peek_def cache_set_def)
  next
    assume "tasks s ! i = RefreshTask u p"
    then show ?thesis
      using fresh lt assms(4)
      by (simp add: resolve_fields exchange_obj_eq refresh_continue_def cache_get_def cache_peek_def
          cache_set_def)
  qed
qed


theorem resolve_overwrites_cache_witness:
  "cache_peek ''s'' 0 (access_cache (toks (resolve demo_config 0
      (Resp2xx (Json (JObj [(''access_token'', JStr ''t''), (''refresh_token'', JStr ''r''),
                            (''expires_in'', JNum 3600)])))
      (serve_request demo_config ''s'' (OAuthCallback (JStr ''abc'')) (init_server 0))))) = JStr ''t''
   \<and> refresh_store (toks (resolve demo_config 0
      (Resp2xx (Json (JObj [(''access_token'', JStr ''t''), (''refresh_token'', JStr ''r''),
                            (''expires_in'', JNum 3600)])))
      (serve_request demo_config ''s'' (OAuthCallback (JStr ''abc'')) (init_server 0)))) ''s'' = Some (JStr ''r'')"
  using resolve_overwrites_cache [OF reach_request [OF reach.init [of 0]], of 0 demo_config "''s''"
      "OAuthCallback (JStr ''abc'')" "''s''"
      "[(''access_token'', JStr ''t''), (''refresh_token'', JStr ''r''), (''expires_in'', JNum 3600)]" 2700]
  by (simp add: serve_request_def init_server_def obj_prop_def)

lemma start_gat_hit:
  assumes "truthy (cache_peek u (clock s) (access_cache (toks s)))"
  shows "tasks (start_gat cfg u s) = tasks s \<and> sent (start_gat cfg u s) = sent s
    \<and> clock (start_gat cfg u s) = clock s
    \<and> returned (start_gat cfg u s) = returned s @ [(u, Normal (cache_peek u (clock s) (access_cache (toks s))))]
    \<and> cache_peek u (clock s) (access_cache (toks (start_gat cfg u s))) = cache_peek u (clock s) (access_cache (toks s))"
proof -
  obtain v1 c1 where g1: "cache_get u (clock s) (access_cache (toks s)) = (v1, c1)" by force
  obtain v2 c2 where g2: "cache_get u (clock s) c1 = (v2, c2)" by force
  have v1: "v1 = cache_peek u (clock s) (access_cache (toks s))"
    using g1 by (metis fst_cache_get fst_conv)
  have c1: "cache_peek u (clock s) c1 = cache_peek u (clock s) (access_cache (toks s))"
    using cache_get_keeps_peek [of "clock s" "clock s" u u "access_cache (toks s)"] g1 by simp
  have v2: "v2 = cache_peek u (clock s) c1"
    using g2 by (metis fst_cache_get fst_conv)
  have c2: "cache_peek u (clock s) c2 = cache_peek u (clock s) c1"
    using cache_get_keeps_peek [of "clock s" "clock s" u u c1] g2 by simp
  show ?thesis using assms v1 c1 v2 c2 by (simp add: start_gat_def g1 g2 Let_def)
qed



lemma exchange_other:
  "u' \<noteq> u \<Longrightarrow>
   refresh_store (ostate (exchange_for_tokens u p r now st)) u' = refresh_store st u'
   \<and> access_cache (ostate (exchange_for_tokens u p r now st)) u' = access_cache st u'"
  by (auto simp: exchange_for_tokens_def exchange_try_def store_tokens_def cache_set_def
      Let_def split: http_result.split body.split completion.split prod.split)

lemma refresh_continue_other:
  "u' \<noteq> u \<Longrightarrow> access_cache (ostate (refresh_continue u o1 t)) u' = access_cache (ostate o1) u'"
  by (simp add: refresh_continue_def split_def cache_get_other split: completion.split)

lemma start_gat_other:
  "u' \<noteq> u \<Longrightarrow> access_cache (toks (start_gat cfg u s)) u' = access_cache (toks s) u'"
  by (simp add: start_gat_def split_def Let_def cache_get_other)

lemma resolve_other:
  assumes "u' \<noteq> task_sid (tasks s ! i)"
  shows "refresh_store (toks (resolve cfg i r s)) u' = refresh_store (toks s) u'
    \<and> access_cache (toks (resolve cfg i r s)) u' = access_cache (toks s) u'"
proof (cases "tasks s ! i")
  case (CallbackTask u p)
  then show ?thesis using assms exchange_other [of u' u p r "clock s" "toks s"]
    by (simp add: resolve_fields)
next
  case (RefreshTask u p)
  then show ?thesis
    using assms exchange_other [of u' u p r "clock s" "toks s"]
      refresh_continue_other [of u' u "exchange_for_tokens u p r (clock s) (toks s)" "clock s"]
    by (simp add: resolve_fields)
qed

text \<open>
  C31: the idempotence property of the specification: while the cached access token of a
  session is valid, any number of \<^verbatim>\<open>getAccessToken\<close> calls send no exchange request,
  leave nothing pending and each return that token.
\<close>

theorem repeated_get_access_token_no_exchange:
  assumes "truthy (cache_peek u (clock s) (access_cache (toks s)))"
  shows "sent ((start_gat cfg u ^^ n) s) = sent s \<and> tasks ((start_gat cfg u ^^ n) s) = tasks s
    \<and> returned ((start_gat cfg u ^^ n) s) =
        returned s @ replicate n (u, Normal (cache_peek u (clock s) (access_cache (toks s))))"
proof -
  have "sent ((start_gat cfg u ^^ n) s) = sent s \<and> tasks ((start_gat cfg u ^^ n) s) = tasks s
    \<and> clock ((start_gat cfg u ^^ n) s) = clock s
    \<and> returned ((start_gat cfg u ^^ n) s) =
        returned s @ replicate n (u, Normal (cache_peek u (clock s) (access_cache (toks s))))
    \<and> cache_peek u (clock s) (access_cache (toks ((start_gat cfg u ^^ n) s))) =
        cache_peek u (clock s) (access_cache (toks s))"
  proof (induction n)
    case 0
    then show ?case by simp
  next
    case (Suc n)
    then have "truthy (cache_peek u (clock ((start_gat cfg u ^^ n) s))
                 (access_cache (toks ((start_gat cfg u ^^ n) s))))"
      using assms by simp
    from start_gat_hit [OF this, of cfg] Suc show ?case
      by (simp add: replicate_append_same)
  qed
  then show ?thesis by simp
qed

theorem repeated_get_access_token_no_exchange_witness:
  "sent ((start_gat demo_config ''s'' ^^ 3) (resolve demo_config 0 demo_tokens
      (serve_request demo_config ''s'' (OAuthCallback (JStr ''abc'')) (init_server 0))))
     = [auth_code_proof demo_config (JStr ''abc'')]
   \<and> returned ((start_gat demo_config ''s'' ^^ 3) (resolve demo_config 0 demo_tokens
      (serve_request demo_config ''s'' (OAuthCallback (JStr ''abc'')) (init_server 0))))
     = replicate 3 (''s'', Normal (JStr ''t''))"
proof -
  let ?s = "resolve demo_config 0 demo_tokens
      (serve_request demo_config ''s'' (OAuthCallback (JStr ''abc'')) (init_server 0))"
  have p: "cache_peek ''s'' (clock ?s) (access_cache (toks ?s)) = JStr ''t''"
    by (simp add: resolve_def serve_request_def init_server_def init_tstate_def demo_tokens_def
        exchange_obj_eq remove_nth_def cache_peek_def cache_set_def livetime_def stale_def
        obj_prop_def)
  have f: "sent ?s = [auth_code_proof demo_config (JStr ''abc'')] \<and> returned ?s = []"
    by (simp add: resolve_def serve_request_def init_server_def remove_nth_def Let_def)
  show ?thesis
    using repeated_get_access_token_no_exchange [where u = "''s''" and s = ?s and cfg = demo_config and n = 3] p f
    by simp
qed


text \<open>
  C32: sessions do not interfere: a request, a \<^verbatim>\<open>getAccessToken\<close> call or the
  completion of a pending exchange for session \<open>u\<close> leaves the stored refresh token
  and the cache entry of every other session unchanged.
\<close>

theorem session_isolation:
  assumes "u' \<noteq> u"
    and "s' = serve_request cfg u req s \<or> s' = start_gat cfg u s
         \<or> (task_sid (tasks s ! i) = u \<and> s' = resolve cfg i r s)"
  shows "refresh_store (toks s') u' = refresh_store (toks s) u'
    \<and> access_cache (toks s') u' = access_cache (toks s) u'"
  using assms(2)
proof (elim disjE conjE)
  assume "s' = serve_request cfg u req s"
  then show ?thesis by (simp add: serve_request_frame)
next
  assume "s' = start_gat cfg u s"
  then show ?thesis using assms(1) start_gat_frame [of cfg u s] by (simp add: start_gat_other)
next
  assume "task_sid (tasks s ! i) = u" and "s' = resolve cfg i r s"
  then show ?thesis using assms(1) resolve_other [of u' s i cfg r] by simp
qed

theorem session_isolation_witness:
  "refresh_store (toks (resolve demo_config 0 demo_tokens
      (serve_request demo_config ''a'' (OAuthCallback (JStr ''abc'')) (init_server 0)))) ''b''
     = refresh_store (toks (serve_request demo_config ''a'' (OAuthCallback (JStr ''abc'')) (init_server 0))) ''b''
   \<and> access_cache (toks (resolve demo_config 0 demo_tokens
      (serve_request demo_config ''a'' (OAuthCallback (JStr ''abc'')) (init_server 0)))) ''b''
     = access_cache (toks (serve_request demo_config ''a'' (OAuthCallback (JStr ''abc'')) (init_server 0))) ''b''"
proof -
  let ?s = "serve_request demo_config ''a'' (OAuthCallback (JStr ''abc'')) (init_server 0)"
  have "task_sid (tasks ?s ! 0) = ''a''" by (simp add: serve_request_def init_server_def)
  then show ?thesis
    using session_isolation [where u' = "''b''" and u = "''a''" and s' = "resolve demo_config 0 demo_tokens ?s"
        and s = ?s and i = 0 and cfg = demo_config and r = demo_tokens and req = Home]
    by simp
qed

end
