(* ===== verification/Spec2Isabelle.thy ===== *)
theory Spec2Isabelle
  imports Server
begin

text \<open>
  Verification development of the HubSpot OAuth 2.0 quickstart server
  \<^verbatim>\<open>src/index.js\<close> (one Express application, 159 lines).

  \<^bold>\<open>The program.\<close> At start-up (lines 9--41) the module reads its configuration from
  the environment, throws when a credential is missing, normalises \<^verbatim>\<open>SCOPE\<close> and
  builds the authorization URL. Two pieces of state are shared by every request: the
  object \<^verbatim>\<open>refreshTokenStore\<close> (session id to refresh token) and the node-cache
  instance \<^verbatim>\<open>accessTokenCache\<close> (session id to access token, with a TTL). The routes
  are \<^verbatim>\<open>/install\<close> (redirect to the authorization URL), \<^verbatim>\<open>/oauth-callback\<close>
  (exchange the code through \<^verbatim>\<open>exchangeForTokens\<close>, then redirect), \<^verbatim>\<open>/\<close> (home
  page through \<^verbatim>\<open>isAuthorized\<close>), \<^verbatim>\<open>/error\<close> and \<^verbatim>\<open>/webhook\<close>. The helpers
  \<^verbatim>\<open>refreshAccessToken\<close>, \<^verbatim>\<open>getAccessToken\<close> and \<^verbatim>\<open>getContact\<close> are defined but
  called by no route.

  \<^bold>\<open>Theories and what they model.\<close>
  \<^item> \<open>Prelude\<close>: type names (\<open>sid\<close> session ids, \<open>ms\<close> milliseconds), the
    collections \<open>js_simps\<close> and \<open>store_simps\<close>, generic lemmas on maps and lists.
  \<^item> \<open>JsValue\<close>: the JavaScript semantics the program relies on, modelled from the
    language specification: values (\<open>jsval\<close>), exceptions (\<open>exn\<close>), completions,
    ToBoolean (\<open>truthy\<close>), property access (\<open>get_prop\<close>, TypeError on
    \<^verbatim>\<open>undefined\<close>/\<^verbatim>\<open>null\<close>), ToString, ToNumber (exact rational values), the outcome of
    \<^verbatim>\<open>JSON.parse\<close>, and \<^verbatim>\<open>e.response.body\<close> of request-promise errors.
  \<^item> \<open>NodeCache\<close>: \<^verbatim>\<open>set\<close>, \<^verbatim>\<open>get\<close>, \<^verbatim>\<open>_wrap\<close>, \<^verbatim>\<open>_check\<close> and the
    \<^verbatim>\<open>_checkData\<close> timer of node-cache for the options of line 12; the cache is a map
    from session id to \<open>\<lparr>cval, ct\<rparr>\<close>.
  \<^item> \<open>Scopes\<close>: line 24, the regular expression \<^verbatim>\<open>/ |, ?|%20/\<close>, the
    \<^verbatim>\<open>String.prototype.split\<close> loop (\<open>split_scope_aux\<close>, terminating by a length
    measure) and \<^verbatim>\<open>join(' ')\<close>, with a reference scan \<open>sep_to_space\<close> that
    replaces every separator match by a space.
  \<^item> \<open>Config\<close>: lines 9--27, \<open>startup\<close> from an environment map to the start-up
    error or the record of module constants.
  \<^item> \<open>UriEncode\<close>: \<^verbatim>\<open>encodeURIComponent\<close> (UTF-8 then percent escapes) and the
    query parsing and percent decoding a client applies to the redirect URL.
  \<^item> \<open>TokenClient\<close>: the state record \<open>tstate\<close> of the two stores, and
    \<^verbatim>\<open>exchangeForTokens\<close> (lines 66--79, as \<open>exchange_try\<close>, \<open>exchange_catch\<close>,
    \<open>exchange_for_tokens\<close>), \<^verbatim>\<open>refreshAccessToken\<close> (81--90),
    \<^verbatim>\<open>getAccessToken\<close> (92--98), \<^verbatim>\<open>isAuthorized\<close> (100--102),
    \<^verbatim>\<open>getContact\<close> (104--118). Each operation returns an \<open>outcome\<close>: its completion,
    the state after it, the console lines and the HTTP requests it posted.
  \<^item> \<open>Routes\<close>: the five handlers (\<open>install_handler\<close>, \<open>oauth_callback\<close>,
    \<open>home_handler\<close>, \<open>error_page\<close>, \<open>webhook_handler\<close>) with their responses as a
    \<open>response\<close> datatype (redirect, HTML body, status and text, or no reply).
  \<^item> \<open>Server\<close>: the interleaving of asynchronous handlers. A \<open>server\<close> record holds
    the stores, the clock, the pending exchanges (\<open>task\<close>: a handler suspended at its
    \<^verbatim>\<open>await\<close>), the replies, the log and the posted requests, and a ghost history
    \<open>granted\<close>. The inductive relation \<open>srv_step\<close> lets the clock advance, the cache
    timer run, a request arrive, \<^verbatim>\<open>getAccessToken\<close> start, and any pending POST
    complete with any response, in any order; \<open>reach\<close> is reachability from the
    initial state.
  \<^item> \<open>Spec2Isabelle\<close> (this theory): properties that span start-up, routes and
    stores.

  \<^bold>\<open>What is proved.\<close> Functional behaviour of the token exchange on every branch
  (success, provider error, transport failure, unparseable body), of
  \<^verbatim>\<open>getAccessToken\<close> on a hit and a miss and across the cache expiry, and of
  \<^verbatim>\<open>getContact\<close> on each outcome; each route, including the callback that never
  replies, the rejections Express leaves unanswered and the webhook's event switch;
  the exact rounding of the TTL and where it departs from the spec's floor; a round trip
  from the configured values through \<^verbatim>\<open>encodeURIComponent\<close> and back, and the
  unencoded error redirect that splits a message at \<^verbatim>\<open>&\<close>; for the scope split, that
  it inverts joining, that split-then-join replaces every separator match by one space
  and that its result holds no comma and no \<^verbatim>\<open>%20\<close>; invariants of every reachable
  server state by rule induction (cache keys are store keys; \<^verbatim>\<open>isAuthorized\<close>
  reflects the latest store-writing exchange); and the concurrency behaviours over
  reachable states: refreshes are not coalesced, the last completed exchange wins, any
  exchange answered without a refresh token de-authorizes its session, sessions never
  touch each other's entries, and repeated \<^verbatim>\<open>getAccessToken\<close> calls on a valid
  token send nothing. A token response without a usable \<^verbatim>\<open>expires_in\<close> is cached
  forever.

  \<^bold>\<open>Model choices and bounds.\<close> JSON numbers are integers (\<open>expires_in\<close> is an
  integer count of seconds), and ToNumber yields the exact rational value of every
  numeric string, so \<open>Math.round(0.75 x)\<close> is \<open>\<lfloor>3x/4 + 1/2\<rfloor>\<close>, which is
  \<open>(3n + 2) div 4\<close> on an integer \<open>n\<close>; rounding to doubles is not modelled (it is
  exact below \<open>2^53\<close>), and \<^verbatim>\<open>Infinity\<close> is outside the model. Characters are bytes
  (code points below 256), so \<^verbatim>\<open>encodeURIComponent\<close> emits one- and two-byte UTF-8
  sequences only. The responses of the HTTP provider are inputs (\<open>http_result\<close>),
  chosen freely by the step relation. No definition needs fuel: every recursion is
  structural or has a measure, and the only unbounded behaviour, a handler that never
  replies, is the value \<open>NoReply\<close> of a terminating function.

  \<^bold>\<open>Not modelled.\<close> express-session (the session id is an opaque argument),
  dotenv, \<^verbatim>\<open>app.listen\<close> and \<^verbatim>\<open>open\<close> (pure I/O), Express's own URL and body
  parsing (a parsed query or body is an input value), the text of JSON bodies (only the
  outcome of parsing), and HTML rendering beyond the bytes written.
\<close>

text \<open>
  C25: when \<^verbatim>\<open>SCOPE\<close> is set, the \<^verbatim>\<open>scope\<close> parameter of the URL that
  \<^verbatim>\<open>/install\<close> redirects to decodes to the normalised scope string.
\<close>

theorem install_scope_param:
  assumes "startup e = Inr cfg" and "e ''SCOPE'' = Some s" and "s \<noteq> []"
  shows "\<exists>url. install_handler cfg = Redirect url
           \<and> map_option uri_decode (map_of (query_params url) ''scope'') = Some (Some (normalize_scope s))"
proof -
  have "scopes cfg = JStr (normalize_scope s)"
    using startup_scopes [OF assms(1)] assms(2,3) by (simp add: scopes_value_def)
  then show ?thesis
    by (simp add: install_handler_def auth_url_query uri_decode_encode)
qed

theorem install_scope_param_witness:
  "\<exists>url. install_handler (projr (startup (demo_env(''SCOPE'' \<mapsto> ''a,b, c'')))) = Redirect url
     \<and> map_option uri_decode (map_of (query_params url) ''scope'') = Some (Some ''a b c'')"
proof -
  have st: "startup (demo_env(''SCOPE'' \<mapsto> ''a,b, c'')) = Inr (projr (startup (demo_env(''SCOPE'' \<mapsto> ''a,b, c''))))"
    by (simp add: startup_def demo_env_def env_val_def)
  have n: "normalize_scope ''a,b, c'' = ''a b c''"
    by (simp add: normalize_scope_def split_scope_def scope_sep_len_def)
  show ?thesis
    using install_scope_param [OF st, of "''a,b, c''"] n by (simp add: demo_env_def)
qed

text \<open>
  C26: once a callback has stored a truthy refresh token, the home page of that session
  shows the installed message, and the handler writes the session secret to the console
  log.
\<close>

theorem home_after_callback:
  assumes "truthy code" and "truthy (obj_prop fs ''refresh_token'')"
  shows "home_handler cfg u (ostate (oauth_callback cfg u code (Resp2xx (Json (JObj fs))) now st)) =
     \<lparr>result = Normal (Html (home_title @ installed_message)),
      ostate = ostate (oauth_callback cfg u code (Resp2xx (Json (JObj fs))) now st),
      logs = [Log (session_secret cfg)], posts = []\<rparr>"
  using assms
  by (simp add: home_handler_def oauth_callback_obj_state is_authorized_def store_read_def)

theorem home_after_callback_witness:
  "logs (home_handler demo_config ''s'' (ostate (oauth_callback demo_config ''s'' (JStr ''abc'')
      (Resp2xx (Json (JObj [(''access_token'', JStr ''t''), (''refresh_token'', JStr ''r''),
                            (''expires_in'', JNum 3600)]))) 0 init_tstate))) = [Log ''ssecret'']"
  using home_after_callback [of "JStr ''abc''"
      "[(''access_token'', JStr ''t''), (''refresh_token'', JStr ''r''), (''expires_in'', JNum 3600)]"
      demo_config "''s''" 0 init_tstate]
  by (simp add: obj_prop_def demo_config_def)

end
